theory Spec2Isabelle
  imports Complex_Main "HOL-Library.List_Lexorder"
begin

section \<open>Strings and characters\<close>

text \<open>
  The grid component (\<^verbatim>\<open>frontend/src/components/Spreadsheet.tsx\<close>) works on JavaScript
  strings. They are modelled as \<^typ>\<open>string\<close>, one \<^typ>\<open>char\<close> per code unit, so the model
  covers code units 0..255; a code unit above 255 that a library function produces is
  represented by the code unit 255, which like it is no letter A-Z, digit, arithmetic symbol or
  white space. Integer indices are modelled as \<^typ>\<open>int\<close>.
\<close>

definition charCode :: "char \<Rightarrow> int" where
  \<comment> \<open>\<^verbatim>\<open>s.charCodeAt(i)\<close> for the code unit at position i\<close>
  "charCode c = of_char c"

definition fromCharCode :: "int \<Rightarrow> char" where
  \<comment> \<open>\<^verbatim>\<open>String.fromCharCode(n)\<close>: the code unit \<^verbatim>\<open>n mod 65536\<close>. A code unit above 255 has
      no \<^typ>\<open>char\<close>; it is represented by the code unit 255, which like it lies in none of
      the classes \<^verbatim>\<open>[A-Z]\<close>, \<^verbatim>\<open>\d\<close> or the arithmetic symbols.\<close>
  "fromCharCode n =
     (let m = n mod 65536 in if m < 256 then char_of m else char_of (255::int))"

definition isUpperAZ :: "char \<Rightarrow> bool" where
  \<comment> \<open>the class \<^verbatim>\<open>[A-Z]\<close>\<close>
  "isUpperAZ c = (65 \<le> charCode c \<and> charCode c \<le> 90)"

definition isLowerAZ :: "char \<Rightarrow> bool" where
  "isLowerAZ c = (97 \<le> charCode c \<and> charCode c \<le> 122)"

definition isDigit :: "char \<Rightarrow> bool" where
  \<comment> \<open>the class \<^verbatim>\<open>\d\<close>\<close>
  "isDigit c = (48 \<le> charCode c \<and> charCode c \<le> 57)"

definition isSpace :: "char \<Rightarrow> bool" where
  \<comment> \<open>the class \<^verbatim>\<open>\s\<close> below code unit 256: TAB, LF, VT, FF, CR, space and
      no-break space. \<^verbatim>\<open>trim()\<close> strips the same characters.\<close>
  "isSpace c = (charCode c \<in> {9, 10, 11, 12, 13, 32, 160})"

definition toUpperChars :: "char \<Rightarrow> string" where
  \<comment> \<open>the upper case of one code unit below 256: the letters a-z and the accented small
      letters 224..254 (but not 247, the division sign) move down by 32; the sharp s, 223,
      becomes \<^verbatim>\<open>SS\<close>; the micro sign, 181, and the y with diaeresis, 255, become the code
      units 924 and 376, which are above 255; every other code unit is kept\<close>
  "toUpperChars c =
     (if isLowerAZ c \<or> (224 \<le> charCode c \<and> charCode c \<le> 254 \<and> charCode c \<noteq> 247)
      then [fromCharCode (charCode c - 32)]
      else if charCode c = 223 then ''SS''
      else if charCode c = 181 then [fromCharCode 924]
      else if charCode c = 255 then [fromCharCode 376]
      else [c])"

definition toLowerChar :: "char \<Rightarrow> char" where
  \<comment> \<open>the lower case of one code unit below 256: the letters A-Z and the accented capital
      letters 192..222 (but not 215, the multiplication sign) move up by 32; every other code
      unit is kept\<close>
  "toLowerChar c =
     (if isUpperAZ c \<or> (192 \<le> charCode c \<and> charCode c \<le> 222 \<and> charCode c \<noteq> 215)
      then fromCharCode (charCode c + 32) else c)"

definition toUpperCase :: "string \<Rightarrow> string" where
  \<comment> \<open>\<^verbatim>\<open>s.toUpperCase()\<close>\<close>
  "toUpperCase s = concat (map toUpperChars s)"

definition toLowerCase :: "string \<Rightarrow> string" where
  \<comment> \<open>\<^verbatim>\<open>s.toLowerCase()\<close>\<close>
  "toLowerCase s = map toLowerChar s"

definition trim :: "string \<Rightarrow> string" where
  \<comment> \<open>\<^verbatim>\<open>s.trim()\<close>\<close>
  "trim s = rev (dropWhile isSpace (rev (dropWhile isSpace s)))"

definition startsWith :: "string \<Rightarrow> string \<Rightarrow> bool" where
  \<comment> \<open>\<^verbatim>\<open>s.startsWith(p)\<close>\<close>
  "startsWith s p = (take (length p) s = p)"

definition slice_str :: "string \<Rightarrow> nat \<Rightarrow> string" where
  \<comment> \<open>\<^verbatim>\<open>s.slice(k, -1)\<close>: from position k up to, not including, the last code unit\<close>
  "slice_str s k = take (length s - 1 - k) (drop k s)"

fun split_on :: "char \<Rightarrow> string \<Rightarrow> string list" where
  \<comment> \<open>\<^verbatim>\<open>s.split(sep)\<close> for a separator of one character: never the empty list\<close>
  "split_on sep [] = [[]]"
| "split_on sep (c # cs) =
     (if c = sep then [] # split_on sep cs
      else (case split_on sep cs of
              [] \<Rightarrow> [[c]]
            | p # ps \<Rightarrow> (c # p) # ps))"

subsection \<open>Decimal numerals\<close>

function toString_nat :: "nat \<Rightarrow> string" where
  \<comment> \<open>the decimal digits of a non-negative integer, as a template literal prints them\<close>
  "toString_nat n =
     (if n < 10 then [fromCharCode (48 + int n)]
      else toString_nat (n div 10) @ [fromCharCode (48 + int (n mod 10))])"
  by pat_completeness auto
termination
  by (relation "measure (\<lambda>n. n)") auto

declare toString_nat.simps [simp del]

definition toString_int :: "int \<Rightarrow> string" where
  \<comment> \<open>\<^verbatim>\<open>`${i}`\<close> for an integer i\<close>
  "toString_int i = (if i < 0 then CHR ''-'' # toString_nat (nat (- i)) else toString_nat (nat i))"

fun parseInt_loop :: "int \<Rightarrow> string \<Rightarrow> int" where
  "parseInt_loop acc [] = acc"
| "parseInt_loop acc (c # cs) = parseInt_loop (acc * 10 + (charCode c - 48)) cs"

definition parseInt :: "string \<Rightarrow> int" where
  \<comment> \<open>\<^verbatim>\<open>parseInt(s, 10)\<close> on a string of decimal digits (the only use in the component)\<close>
  "parseInt s = parseInt_loop 0 s"

section \<open>Coordinate codec\<close>

text \<open>\<^verbatim>\<open>columnLetterToIndex\<close>: the loop over the letters, then \<^verbatim>\<open>result - 1\<close>.\<close>

fun columnLetterToIndex_loop :: "int \<Rightarrow> string \<Rightarrow> int" where
  "columnLetterToIndex_loop result [] = result"
| "columnLetterToIndex_loop result (c # cs) =
     columnLetterToIndex_loop (result * 26 + (charCode c - 65 + 1)) cs"

definition columnLetterToIndex :: "string \<Rightarrow> int" where
  "columnLetterToIndex letter = columnLetterToIndex_loop 0 letter - 1"

text \<open>\<^verbatim>\<open>getColumnLetter\<close>: \<^verbatim>\<open>while (index >= 0)\<close>, prepending one letter per round.\<close>

function getColumnLetter_loop :: "int \<Rightarrow> string \<Rightarrow> string" where
  "getColumnLetter_loop index result =
     (if index \<ge> 0
      then getColumnLetter_loop (index div 26 - 1) (fromCharCode (65 + index mod 26) # result)
      else result)"
  by pat_completeness auto
termination
  by (relation "measure (\<lambda>(index, result). nat (index + 1))") auto

declare getColumnLetter_loop.simps [simp del]

definition getColumnLetter :: "int \<Rightarrow> string" where
  "getColumnLetter index = getColumnLetter_loop index []"

record CellPosition =
  row :: int
  col :: int

definition getCellReference :: "int \<Rightarrow> int \<Rightarrow> string" where
  \<comment> \<open>the column is one character, \<^verbatim>\<open>String.fromCharCode(65 + col)\<close>\<close>
  "getCellReference r c =
     (let colLetter = fromCharCode (65 + c);
          rowNumber = (if r = -1 then 1 else r + 2)
      in colLetter # toString_int rowNumber)"

definition match_ref :: "string \<Rightarrow> (string \<times> string) option" where
  \<comment> \<open>\<^verbatim>\<open>cellRef.match(/^([A-Z]+)(\d+)$/)\<close>: the two groups, or None for no match\<close>
  "match_ref s =
     (let letters = takeWhile isUpperAZ s; digits = dropWhile isUpperAZ s
      in if letters \<noteq> [] \<and> digits \<noteq> [] \<and> list_all isDigit digits
         then Some (letters, digits) else None)"

definition decodeRef :: "string \<Rightarrow> CellPosition option" where
  \<comment> \<open>the decoding at the head of \<^verbatim>\<open>getCellValue\<close>: \<^verbatim>\<open>colIndex\<close> from the letters,
      \<^verbatim>\<open>rowIndex = rowNum - 2\<close>, so that row number 1 is the header row -1\<close>
  "decodeRef cellRef =
     (case match_ref cellRef of
        None \<Rightarrow> None
      | Some (colLetter, digits) \<Rightarrow>
          (let rowNum = parseInt digits;
               colIndex = columnLetterToIndex colLetter;
               rowIndex = rowNum - 2
           in Some \<lparr>row = rowIndex, col = colIndex\<rparr>))"

section \<open>Viewport window\<close>

definition ROW_HEIGHT :: int where
  "ROW_HEIGHT = 40"

definition BUFFER_SIZE :: int where
  "BUFFER_SIZE = 10"

definition slice :: "'a list \<Rightarrow> int \<Rightarrow> int \<Rightarrow> 'a list" where
  \<comment> \<open>\<^verbatim>\<open>xs.slice(start, end)\<close> on integers: a negative index counts from the end,
      both are clamped to the length, and the result is empty when end is not after start\<close>
  "slice xs s e =
     (let len = int (length xs);
          k = (if s < 0 then max (len + s) 0 else min s len);
          final = (if e < 0 then max (len + e) 0 else min e len)
      in take (nat (final - k)) (drop (nat k) xs))"

record 'a Viewport =
  visibleRows :: "'a list"
  totalHeight :: int
  offsetY :: int
  startIndex :: int
  endIndex :: int

definition virtualScroll :: "'a list \<Rightarrow> rat \<Rightarrow> rat \<Rightarrow> 'a Viewport" where
  \<comment> \<open>the \<^verbatim>\<open>useMemo\<close> that computes \<^verbatim>\<open>visibleRows, offsetY, startIndex, endIndex\<close> from
      \<^verbatim>\<open>filteredData\<close>, \<^verbatim>\<open>scrollTop\<close> and \<^verbatim>\<open>containerHeight\<close>\<close>
  "virtualScroll filteredData scrollTop containerHeight =
     (let totalRows = int (length filteredData);
          visibleRowCount = min totalRows (\<lceil>containerHeight / of_int ROW_HEIGHT\<rceil> + BUFFER_SIZE * 2);
          startIdx = max 0 (\<lfloor>scrollTop / of_int ROW_HEIGHT\<rfloor> - BUFFER_SIZE);
          endIdx = min totalRows (startIdx + visibleRowCount)
      in \<lparr>visibleRows = slice filteredData startIdx endIdx,
          totalHeight = totalRows * ROW_HEIGHT,
          offsetY = startIdx * ROW_HEIGHT,
          startIndex = startIdx,
          endIndex = endIdx\<rparr>)"

definition leadingSpacer :: "'a Viewport \<Rightarrow> int" where
  \<comment> \<open>the spacer row above the window, rendered when \<^verbatim>\<open>startIndex > 0\<close>\<close>
  "leadingSpacer v = (if startIndex v > 0 then offsetY v else 0)"

definition trailingSpacer :: "'a list \<Rightarrow> 'a Viewport \<Rightarrow> int" where
  \<comment> \<open>the spacer row below the window, rendered when \<^verbatim>\<open>endIndex < filteredData.length\<close>\<close>
  "trailingSpacer filteredData v =
     (if endIndex v < int (length filteredData)
      then (int (length filteredData) - endIndex v) * ROW_HEIGHT else 0)"

section \<open>Selection model\<close>

record CellRange =
  range_start :: CellPosition
  range_end :: CellPosition

record MouseEvent =
  ctrlKey :: bool
  metaKey :: bool
  shiftKey :: bool

record Selection =
  selectedCell :: "CellPosition option"
  selectedRange :: "CellRange option"
  selectedCells :: "string set"
  editingCell :: "CellPosition option"

definition cellKey :: "int \<Rightarrow> int \<Rightarrow> string" where
  \<comment> \<open>the template literal \<^verbatim>\<open>`${row},${col}`\<close>\<close>
  "cellKey r c = toString_int r @ '','' @ toString_int c"

definition handleCellClick :: "Selection \<Rightarrow> int \<Rightarrow> int \<Rightarrow> MouseEvent \<Rightarrow> Selection" where
  "handleCellClick sel r c e =
     (let key = cellKey r c in
      if ctrlKey e \<or> metaKey e then
        (let newSelectedCells =
               (if key \<in> selectedCells sel then selectedCells sel - {key}
                else insert key (selectedCells sel))
         in \<lparr>selectedCell = Some \<lparr>row = r, col = c\<rparr>,
             selectedRange = None,
             selectedCells = newSelectedCells,
             editingCell = None\<rparr>)
      else if shiftKey e \<and> selectedCell sel \<noteq> None then
        (case selectedCell sel of
           Some anchor \<Rightarrow>
             (let startRow = min (row anchor) r; endRow = max (row anchor) r;
                  startCol = min (col anchor) c; endCol = max (col anchor) c;
                  newSelectedCells =
                    set (concat (map (\<lambda>r'. map (\<lambda>c'. cellKey r' c') [startCol..endCol])
                                     [startRow..endRow]))
              in \<lparr>selectedCell = Some \<lparr>row = r, col = c\<rparr>,
                  selectedRange = Some \<lparr>range_start = \<lparr>row = startRow, col = startCol\<rparr>,
                                         range_end = \<lparr>row = endRow, col = endCol\<rparr>\<rparr>,
                  selectedCells = newSelectedCells,
                  editingCell = None\<rparr>)
         | None \<Rightarrow> sel)
      else
        \<lparr>selectedCell = Some \<lparr>row = r, col = c\<rparr>,
         selectedRange = None,
         selectedCells = {key},
         editingCell = None\<rparr>)"

section \<open>Numbers\<close>

text \<open>
  A JavaScript number is a double: not-a-number, one of the two infinities, or a finite
  value, which is a rational (the two zeros are one value here). Arithmetic on finite
  values rounds its exact result to a double, or to an infinity when it overflows. The
  rounding is an argument \<open>rnd\<close> of every function that computes with numbers, and what is
  proved about these functions holds for every rounding.
\<close>

datatype jsnum = NaN | NegInfinity | Finite rat | Infinity

definition js_neg :: "jsnum \<Rightarrow> jsnum" where
  \<comment> \<open>\<^verbatim>\<open>-x\<close>\<close>
  "js_neg x = (case x of NaN \<Rightarrow> NaN | NegInfinity \<Rightarrow> Infinity
               | Finite a \<Rightarrow> Finite (- a) | Infinity \<Rightarrow> NegInfinity)"

fun js_add :: "(rat \<Rightarrow> jsnum) \<Rightarrow> jsnum \<Rightarrow> jsnum \<Rightarrow> jsnum" where
  \<comment> \<open>\<^verbatim>\<open>x + y\<close> on numbers\<close>
  "js_add rnd NaN y = NaN"
| "js_add rnd x NaN = NaN"
| "js_add rnd Infinity NegInfinity = NaN"
| "js_add rnd NegInfinity Infinity = NaN"
| "js_add rnd Infinity y = Infinity"
| "js_add rnd x Infinity = Infinity"
| "js_add rnd NegInfinity y = NegInfinity"
| "js_add rnd x NegInfinity = NegInfinity"
| "js_add rnd (Finite a) (Finite b) = rnd (a + b)"

definition js_sub :: "(rat \<Rightarrow> jsnum) \<Rightarrow> jsnum \<Rightarrow> jsnum \<Rightarrow> jsnum" where
  \<comment> \<open>\<^verbatim>\<open>x - y\<close>, which is \<^verbatim>\<open>x + (-y)\<close>\<close>
  "js_sub rnd x y = js_add rnd x (js_neg y)"

definition js_div_count :: "(rat \<Rightarrow> jsnum) \<Rightarrow> jsnum \<Rightarrow> nat \<Rightarrow> jsnum" where
  \<comment> \<open>\<^verbatim>\<open>x / count\<close> for a count above 0\<close>
  "js_div_count rnd x count =
     (case x of NaN \<Rightarrow> NaN | NegInfinity \<Rightarrow> NegInfinity
      | Finite a \<Rightarrow> rnd (a / of_nat count) | Infinity \<Rightarrow> Infinity)"

definition js_positive :: "jsnum \<Rightarrow> bool" where
  \<comment> \<open>\<^verbatim>\<open>x > 0\<close>\<close>
  "js_positive x = (case x of NaN \<Rightarrow> False | NegInfinity \<Rightarrow> False
                    | Finite a \<Rightarrow> 0 < a | Infinity \<Rightarrow> True)"

definition js_negative :: "jsnum \<Rightarrow> bool" where
  \<comment> \<open>\<^verbatim>\<open>x < 0\<close>\<close>
  "js_negative x = (case x of NaN \<Rightarrow> False | NegInfinity \<Rightarrow> True
                    | Finite a \<Rightarrow> a < 0 | Infinity \<Rightarrow> False)"

fun js_le :: "jsnum \<Rightarrow> jsnum \<Rightarrow> bool" where
  \<comment> \<open>\<^verbatim>\<open>x <= y\<close>: false when either is not-a-number\<close>
  "js_le NaN y = False"
| "js_le x NaN = False"
| "js_le NegInfinity y = True"
| "js_le x Infinity = True"
| "js_le Infinity y = False"
| "js_le x NegInfinity = False"
| "js_le (Finite a) (Finite b) = (a \<le> b)"

definition js_lt :: "jsnum \<Rightarrow> jsnum \<Rightarrow> bool" where
  \<comment> \<open>\<^verbatim>\<open>x < y\<close>\<close>
  "js_lt x y = (js_le x y \<and> \<not> js_le y x)"

definition js_max2 :: "jsnum \<Rightarrow> jsnum \<Rightarrow> jsnum" where
  \<comment> \<open>\<^verbatim>\<open>Math.max(x, y)\<close>: not-a-number when either is\<close>
  "js_max2 x y = (if x = NaN \<or> y = NaN then NaN else if js_le x y then y else x)"

definition js_min2 :: "jsnum \<Rightarrow> jsnum \<Rightarrow> jsnum" where
  \<comment> \<open>\<^verbatim>\<open>Math.min(x, y)\<close>: not-a-number when either is\<close>
  "js_min2 x y = (if x = NaN \<or> y = NaN then NaN else if js_le x y then x else y)"

definition isFinite :: "jsnum \<Rightarrow> bool" where
  "isFinite x = (case x of Finite a \<Rightarrow> True | _ \<Rightarrow> False)"

definition noRounding :: "rat \<Rightarrow> jsnum" where
  \<comment> \<open>the rounding of a result that is a double itself; it serves where a concrete grid of
      small integers, or without numbers, is evaluated\<close>
  "noRounding x = Finite x"

definition numberToString :: "jsnum \<Rightarrow> string" where
  \<comment> \<open>\<^verbatim>\<open>n.toString()\<close> for an integer or a number that is not finite. The functions that print
      numbers take the printer as an argument, and what is proved about them holds for every
      printer; this one serves where a concrete grid is evaluated.\<close>
  "numberToString n =
     (case n of NaN \<Rightarrow> ''NaN'' | NegInfinity \<Rightarrow> ''-Infinity''
      | Finite a \<Rightarrow> toString_int \<lfloor>a\<rfloor> | Infinity \<Rightarrow> ''Infinity'')"

section \<open>Cells, columns and references\<close>

text \<open>
  A cell value is a number or a string. (The one other value that can reach a cell is the
  regular expression that \<^verbatim>\<open>eval\<close> gives for a formula such as \<^verbatim>\<open>=/1/\<close>. In every function
  below it behaves as the string it converts to, which is not empty, and it is represented by
  that string.)
\<close>

datatype jsval = Num jsnum | Str string

definition truthy :: "jsval \<Rightarrow> bool" where
  \<comment> \<open>what \<^verbatim>\<open>v || d\<close> tests: the number 0, not-a-number and the empty string are falsy\<close>
  "truthy v = (case v of Num n \<Rightarrow> n \<noteq> Finite 0 \<and> n \<noteq> NaN | Str s \<Rightarrow> s \<noteq> [])"

definition js_or :: "jsval \<Rightarrow> jsval \<Rightarrow> jsval" where
  "js_or v d = (if truthy v then v else d)"

datatype Alignment = AlignLeft | AlignCenter | AlignRight

record CellFormat =
  bold :: "bool option"
  italic :: "bool option"
  alignment :: "Alignment option"
  backgroundColor :: "string option"

record CellData =
  cell_value :: jsval
  cell_format :: "CellFormat option"
  cell_formula :: "string option"

record Column =
  name :: string
  key :: string

type_synonym Grid = "CellData list list"

definition getCellValue :: "Column list \<Rightarrow> Grid \<Rightarrow> string \<Rightarrow> jsval" where
  "getCellValue columns grid cellRef =
     (case match_ref cellRef of
        None \<Rightarrow> Num (Finite 0)
      | Some (colLetter, digits) \<Rightarrow>
          (let rowNum = parseInt digits;
               colIndex = columnLetterToIndex colLetter;
               rowIndex = rowNum - 2
           in if rowNum = 1 then
                (if 0 \<le> colIndex \<and> colIndex < int (length columns)
                 then js_or (Str (name (columns ! nat colIndex))) (Str [])
                 else Str [])
              else if rowIndex \<ge> 0 \<and> rowIndex < int (length grid) \<and> colIndex \<ge> 0
                      \<and> colIndex < int (length (grid ! nat rowIndex))
              then js_or (cell_value (grid ! nat rowIndex ! nat colIndex)) (Num (Finite 0))
              else Num (Finite 0)))"

definition getCellsInRange :: "Column list \<Rightarrow> Grid \<Rightarrow> string \<Rightarrow> jsval list" where
  "getCellsInRange columns grid rangeStr =
     (if CHR '':'' \<notin> set rangeStr then [getCellValue columns grid rangeStr]
      else (case split_on CHR '':'' rangeStr of
              startCell # endCell # _ \<Rightarrow>
                (if endCell = [] then []
                 else (case (match_ref startCell, match_ref endCell) of
                         (Some (startLetter, startDigits), Some (endLetter, endDigits)) \<Rightarrow>
                           (let startColIndex = columnLetterToIndex startLetter;
                                startRowNum = parseInt startDigits;
                                endColIndex = columnLetterToIndex endLetter;
                                endRowNum = parseInt endDigits;
                                minCol = min startColIndex endColIndex;
                                maxCol = max startColIndex endColIndex;
                                minRow = min startRowNum endRowNum;
                                maxRow = max startRowNum endRowNum
                            in concat (map (\<lambda>rowNum.
                                 map (\<lambda>colIndex.
                                   getCellValue columns grid
                                     (fromCharCode (65 + colIndex) # toString_int rowNum))
                                   [minCol..maxCol])
                                 [minRow..maxRow]))
                       | _ \<Rightarrow> []))
            | _ \<Rightarrow> []))"

section \<open>Formula engine\<close>

definition arithChar :: "char \<Rightarrow> bool" where
  \<comment> \<open>the class \<^verbatim>\<open>[A-Z0-9+\-*/.\s]\<close>\<close>
  "arithChar c = (isUpperAZ c \<or> isDigit c \<or> c \<in> set ''+-*/.'' \<or> isSpace c)"

definition safeChar :: "char \<Rightarrow> bool" where
  \<comment> \<open>the class \<^verbatim>\<open>[0-9+\-*/.() ]\<close>\<close>
  "safeChar c = (isDigit c \<or> c \<in> set ''+-*/.() '')"

definition isArithmetic :: "string \<Rightarrow> bool" where
  \<comment> \<open>\<^verbatim>\<open>/^[A-Z0-9+\-*/.\s]+$/.test(s)\<close>\<close>
  "isArithmetic s = (s \<noteq> [] \<and> list_all arithChar s)"

definition isSafeExpression :: "string \<Rightarrow> bool" where
  \<comment> \<open>\<^verbatim>\<open>/^[0-9+\-*/.() ]+$/.test(s)\<close>\<close>
  "isSafeExpression s = (s \<noteq> [] \<and> list_all safeChar s)"

function replaceRefs :: "(string \<Rightarrow> string) \<Rightarrow> string \<Rightarrow> string" where
  \<comment> \<open>\<^verbatim>\<open>s.replace(/([A-Z]+\d+)/g, f)\<close>: leftmost matches, letters and digits taken greedily\<close>
  "replaceRefs f [] = []"
| "replaceRefs f (c # cs) =
     (if isUpperAZ c \<and> takeWhile isDigit (dropWhile isUpperAZ cs) \<noteq> []
      then f (c # takeWhile isUpperAZ cs @ takeWhile isDigit (dropWhile isUpperAZ cs))
           @ replaceRefs f (dropWhile isDigit (dropWhile isUpperAZ cs))
      else c # replaceRefs f cs)"
  by pat_completeness auto
termination
proof (relation "measure (\<lambda>(f, s). length s)")
  fix f :: "string \<Rightarrow> string" and c :: char and cs :: string
  have "length (dropWhile isDigit (dropWhile isUpperAZ cs)) \<le> length (dropWhile isUpperAZ cs)"
    by (rule length_dropWhile_le)
  also have "\<dots> \<le> length cs"
    by (rule length_dropWhile_le)
  finally show "((f, dropWhile isDigit (dropWhile isUpperAZ cs)), (f, c # cs))
      \<in> measure (\<lambda>(f, s). length s)"
    by simp
qed simp_all

fun numericValues :: "jsval list \<Rightarrow> jsnum list" where
  \<comment> \<open>\<^verbatim>\<open>values.filter(val => typeof val === 'number')\<close>\<close>
  "numericValues [] = []"
| "numericValues (Num n # vs) = n # numericValues vs"
| "numericValues (Str s # vs) = numericValues vs"

definition numberOrZero :: "jsval \<Rightarrow> jsnum" where
  \<comment> \<open>\<^verbatim>\<open>typeof val === 'number' ? val : 0\<close>\<close>
  "numberOrZero v = (case v of Num n \<Rightarrow> n | Str s \<Rightarrow> Finite 0)"

text \<open>
  A call that spreads an array passes one argument per element, and an engine refuses a call
  with too many arguments by a \<^verbatim>\<open>RangeError\<close>. Which numbers of arguments the engine accepts
  is the argument \<open>accepts\<close> of the functions below.
\<close>

definition argumentLimit :: "int \<Rightarrow> nat \<Rightarrow> bool" where
  \<comment> \<open>an engine that accepts a call with k arguments or less\<close>
  "argumentLimit k n = (int n \<le> k)"

definition Math_max :: "(nat \<Rightarrow> bool) \<Rightarrow> jsnum \<Rightarrow> jsnum list \<Rightarrow> jsnum option" where
  \<comment> \<open>\<^verbatim>\<open>Math.max(max, ...numericValues)\<close>: the greatest argument, not-a-number when one is;
      None when the call is refused\<close>
  "Math_max accepts acc ns =
     (if accepts (Suc (length ns)) then Some (foldl js_max2 acc ns) else None)"

definition Math_min :: "(nat \<Rightarrow> bool) \<Rightarrow> jsnum \<Rightarrow> jsnum list \<Rightarrow> jsnum option" where
  \<comment> \<open>\<^verbatim>\<open>Math.min(min, ...numericValues)\<close>: the least argument, not-a-number when one is;
      None when the call is refused\<close>
  "Math_min accepts acc ns =
     (if accepts (Suc (length ns)) then Some (foldl js_min2 acc ns) else None)"

datatype FormulaStep = Return jsval | EvalExpression string

definition ERROR :: jsval where
  "ERROR = Str ''#ERROR!''"

definition evaluateFormula_step ::
  "(nat \<Rightarrow> bool) \<Rightarrow> (rat \<Rightarrow> jsnum) \<Rightarrow> (jsnum \<Rightarrow> string)
     \<Rightarrow> Column list \<Rightarrow> Grid \<Rightarrow> string \<Rightarrow> FormulaStep" where
  \<comment> \<open>\<^verbatim>\<open>evaluateFormula\<close> up to its one call of \<^verbatim>\<open>eval\<close>: either the value returned
      without evaluating anything, or the expression handed to \<^verbatim>\<open>eval\<close>. The first argument
      tells the numbers of arguments that a call accepts, the second is the rounding of the
      arithmetic, the third is \<^verbatim>\<open>Number.prototype.toString\<close>. A refused call of \<^verbatim>\<open>Math.max\<close>
      or \<^verbatim>\<open>Math.min\<close> is caught by the outer \<^verbatim>\<open>catch\<close>, which returns \<^verbatim>\<open>#ERROR!\<close>.\<close>
  "evaluateFormula_step accepts rnd toStr columns grid formula =
     (let upperFormula = trim (toUpperCase formula) in
      if CHR ''('' \<notin> set upperFormula \<and> isArithmetic upperFormula then
        (let expression =
               replaceRefs (\<lambda>m. case getCellValue columns grid m of
                                    Num n \<Rightarrow> toStr n | Str s \<Rightarrow> ''0'') upperFormula
         in if \<not> isSafeExpression expression then Return ERROR
            else EvalExpression expression)
      else if startsWith upperFormula ''SUM('' then
        (let args = split_on CHR '','' (slice_str upperFormula 4);
             sum = foldl (\<lambda>sum arg.
                     js_add rnd sum
                       (foldl (\<lambda>acc v. js_add rnd acc (numberOrZero v)) (Finite 0)
                          (getCellsInRange columns grid (trim arg)))) (Finite 0) args
         in Return (Num sum))
      else if startsWith upperFormula ''AVERAGE('' then
        (let args = split_on CHR '','' (slice_str upperFormula 8);
             (sum, count) = foldl (\<lambda>(sum, count) arg.
                     (let ns = numericValues (getCellsInRange columns grid (trim arg))
                      in (js_add rnd sum (foldl (\<lambda>acc n. js_add rnd acc n) (Finite 0) ns),
                          count + length ns)))
                   (Finite 0, 0) args
         in Return (Num (if count > 0 then js_div_count rnd sum count else Finite 0)))
      else if startsWith upperFormula ''COUNT('' then
        (let args = split_on CHR '','' (slice_str upperFormula 6);
             count = foldl (\<lambda>count arg.
                     count + length (numericValues (getCellsInRange columns grid (trim arg))))
                   0 args
         in Return (Num (Finite (of_nat count))))
      else if startsWith upperFormula ''MAX('' then
        (let args = split_on CHR '','' (slice_str upperFormula 4);
             mx = foldl (\<lambda>mx arg.
                     (case mx of
                        None \<Rightarrow> None
                      | Some m \<Rightarrow>
                          (let ns = numericValues (getCellsInRange columns grid (trim arg))
                           in if length ns > 0 then Math_max accepts m ns else Some m)))
                   (Some NegInfinity) args
         in (case mx of
               None \<Rightarrow> Return ERROR
             | Some m \<Rightarrow> Return (Num (if m = NegInfinity then Finite 0 else m))))
      else if startsWith upperFormula ''MIN('' then
        (let args = split_on CHR '','' (slice_str upperFormula 4);
             mn = foldl (\<lambda>mn arg.
                     (case mn of
                        None \<Rightarrow> None
                      | Some m \<Rightarrow>
                          (let ns = numericValues (getCellsInRange columns grid (trim arg))
                           in if length ns > 0 then Math_min accepts m ns else Some m)))
                   (Some Infinity) args
         in (case mn of
               None \<Rightarrow> Return ERROR
             | Some m \<Rightarrow> Return (Num (if m = Infinity then Finite 0 else m))))
      else if match_ref upperFormula \<noteq> None then
        Return (getCellValue columns grid upperFormula)
      else Return ERROR)"

definition evaluateFormula ::
  "(nat \<Rightarrow> bool) \<Rightarrow> (rat \<Rightarrow> jsnum) \<Rightarrow> (jsnum \<Rightarrow> string) \<Rightarrow> (string \<Rightarrow> jsval option)
     \<Rightarrow> Column list \<Rightarrow> Grid \<Rightarrow> string \<Rightarrow> jsval" where
  \<comment> \<open>the fourth argument is \<^verbatim>\<open>eval\<close>, None when it throws (\<^verbatim>\<open>undefined\<close>, the value of
      an expression that is only a comment, is falsy as 0 is and represented by it);
      \<^verbatim>\<open>return eval(expression) || 0\<close> inside \<^verbatim>\<open>try ... catch { return '#ERROR!' }\<close>\<close>
  "evaluateFormula accepts rnd toStr js_eval columns grid formula =
     (case evaluateFormula_step accepts rnd toStr columns grid formula of
        Return v \<Rightarrow> v
      | EvalExpression expression \<Rightarrow>
          (case js_eval expression of
             None \<Rightarrow> ERROR
           | Some v \<Rightarrow> js_or v (Num (Finite 0))))"

text \<open>
  What the aggregates are to compute, in the words of the design: the values each argument
  expands to, the values all arguments expand to, and the reductions over them. A sum of
  numbers is accumulated from the left, starting at 0.
\<close>

definition argumentValues :: "Column list \<Rightarrow> Grid \<Rightarrow> string \<Rightarrow> nat \<Rightarrow> jsval list list" where
  \<comment> \<open>the argument list starts at position k of the upper-cased formula\<close>
  "argumentValues columns grid upperFormula k =
     map (\<lambda>arg. getCellsInRange columns grid (trim arg))
         (split_on CHR '','' (slice_str upperFormula k))"

definition expandedValues :: "Column list \<Rightarrow> Grid \<Rightarrow> string \<Rightarrow> nat \<Rightarrow> jsval list" where
  "expandedValues columns grid upperFormula k =
     concat (argumentValues columns grid upperFormula k)"

definition js_sum :: "(rat \<Rightarrow> jsnum) \<Rightarrow> jsnum list \<Rightarrow> jsnum" where
  "js_sum rnd ns = foldl (js_add rnd) (Finite 0) ns"

definition spec_SUM :: "(rat \<Rightarrow> jsnum) \<Rightarrow> jsval list list \<Rightarrow> jsnum" where
  \<comment> \<open>the total of the totals of the arguments, a value that is no number counting as 0\<close>
  "spec_SUM rnd vss = js_sum rnd (map (\<lambda>vs. js_sum rnd (map numberOrZero vs)) vss)"

definition spec_AVERAGE :: "(rat \<Rightarrow> jsnum) \<Rightarrow> jsval list list \<Rightarrow> jsnum" where
  \<comment> \<open>the total of the numeric values, by their count\<close>
  "spec_AVERAGE rnd vss =
     (let total = js_sum rnd (map (\<lambda>vs. js_sum rnd (numericValues vs)) vss);
          count = length (numericValues (concat vss))
      in if count = 0 then Finite 0 else js_div_count rnd total count)"

definition spec_COUNT :: "jsval list \<Rightarrow> nat" where
  "spec_COUNT vs = length (numericValues vs)"

definition accepted :: "(nat \<Rightarrow> bool) \<Rightarrow> jsval list list \<Rightarrow> bool" where
  \<comment> \<open>the engine accepts the call of \<^verbatim>\<open>Math.max\<close> or \<^verbatim>\<open>Math.min\<close> for every argument that
      has a numeric value: the accumulator and the numeric values are passed\<close>
  "accepted accepts vss =
     list_all (\<lambda>vs. numericValues vs = [] \<or> accepts (Suc (length (numericValues vs)))) vss"

definition greatest :: "jsnum list \<Rightarrow> jsnum \<Rightarrow> bool" where
  "greatest ns m = (m \<in> set ns \<and> list_all (\<lambda>n. js_le n m) ns)"

definition least :: "jsnum list \<Rightarrow> jsnum \<Rightarrow> bool" where
  "least ns m = (m \<in> set ns \<and> list_all (\<lambda>n. js_le m n) ns)"

definition finiteValue :: "jsnum \<Rightarrow> rat" where
  "finiteValue x = (case x of Finite a \<Rightarrow> a | _ \<Rightarrow> 0)"

section \<open>Sorting\<close>

datatype SortDirection = Asc | Desc

fun str_less :: "string \<Rightarrow> string \<Rightarrow> bool" where
  \<comment> \<open>\<^verbatim>\<open>a < b\<close> on strings: code units compared from the left, a proper prefix is smaller\<close>
  "str_less [] [] = False"
| "str_less [] (y # ys) = True"
| "str_less (x # xs) [] = False"
| "str_less (x # xs) (y # ys) =
     (charCode x < charCode y \<or> (charCode x = charCode y \<and> str_less xs ys))"

definition String_of :: "(jsnum \<Rightarrow> string) \<Rightarrow> jsval \<Rightarrow> string" where
  \<comment> \<open>\<^verbatim>\<open>String(v)\<close>\<close>
  "String_of toStr v = (case v of Num n \<Rightarrow> toStr n | Str s \<Rightarrow> s)"

definition compareValues ::
  "(rat \<Rightarrow> jsnum) \<Rightarrow> (jsnum \<Rightarrow> string) \<Rightarrow> SortDirection \<Rightarrow> jsval \<Rightarrow> jsval \<Rightarrow> jsnum" where
  \<comment> \<open>the body of the comparator of \<^verbatim>\<open>handleSort\<close> (and of \<^verbatim>\<open>sortedData\<close>) on the two
      cell values \<^verbatim>\<open>aVal\<close> and \<^verbatim>\<open>bVal\<close>\<close>
  "compareValues rnd toStr direction aVal bVal =
     (case (aVal, bVal) of
        (Num a, Num b) \<Rightarrow> (if direction = Asc then js_sub rnd a b else js_sub rnd b a)
      | _ \<Rightarrow>
          (let aStr = toLowerCase (String_of toStr aVal);
               bStr = toLowerCase (String_of toStr bVal)
           in if direction = Asc
              then (if str_less aStr bStr then Finite (-1)
                    else if str_less bStr aStr then Finite 1 else Finite 0)
              else (if str_less bStr aStr then Finite (-1)
                    else if str_less aStr bStr then Finite 1 else Finite 0)))"

definition signExact :: "(rat \<Rightarrow> jsnum) \<Rightarrow> rat \<Rightarrow> bool" where
  \<comment> \<open>the rounding of x has the sign of x\<close>
  "signExact rnd x = ((js_negative (rnd x) \<longleftrightarrow> x < 0) \<and> (js_positive (rnd x) \<longleftrightarrow> 0 < x))"

definition differenceSigned :: "(rat \<Rightarrow> jsnum) \<Rightarrow> jsval \<Rightarrow> jsval \<Rightarrow> bool" where
  \<comment> \<open>the difference of two finite numbers is rounded to a number of its sign, as the
      difference of two doubles is; nothing is asked of any other pair of values\<close>
  "differenceSigned rnd x y =
     (case (x, y) of
        (Num (Finite p), Num (Finite q)) \<Rightarrow> signExact rnd (p - q) \<and> signExact rnd (q - p)
      | _ \<Rightarrow> True)"

fun insort_cmp :: "('a \<Rightarrow> 'a \<Rightarrow> jsnum) \<Rightarrow> 'a \<Rightarrow> 'a list \<Rightarrow> 'a list" where
  "insort_cmp cmp x [] = [x]"
| "insort_cmp cmp x (y # ys) =
     (if \<not> js_positive (cmp x y) then x # y # ys else y # insort_cmp cmp x ys)"

definition js_sort :: "('a \<Rightarrow> 'a \<Rightarrow> jsnum) \<Rightarrow> 'a list \<Rightarrow> 'a list" where
  \<comment> \<open>\<^verbatim>\<open>xs.sort(cmp)\<close> is a stable sort: an element moves before another only where the
      comparator is positive, and a comparison that is not a number counts as 0. For a
      comparator that is a total preorder the result is that of the stable insertion sort;
      for any other comparator the order of the result is left to the implementation. The
      sorts evaluated below are of columns of strings, on which the comparator is such a
      preorder.\<close>
  "js_sort cmp xs = foldr (insort_cmp cmp) xs []"

section \<open>Grid state and history\<close>

text \<open>
  \<^verbatim>\<open>gridData\<close> is an array of row arrays, and the handlers write into row arrays that the
  previous \<^verbatim>\<open>gridData\<close> still refers to. Row arrays therefore live in a store, and
  \<^verbatim>\<open>gridData\<close> is the list of their addresses; cells are replaced, never written into. A
  handler runs on the values its render has bound (\<^verbatim>\<open>gridData\<close>, \<^verbatim>\<open>history\<close>,
  \<^verbatim>\<open>historyIndex\<close>): a \<^verbatim>\<open>set...\<close> call changes the next render, not these. Each handler
  below maps the state of its render to the state of the next one. \<^verbatim>\<open>data.columns\<close> belongs
  to the parent; the \<^verbatim>\<open>onHeaderChange\<close> calls of undo and redo are not part of this state.
\<close>

type_synonym addr = nat

record HistoryState =
  snapshot_gridData :: Grid
  snapshot_columns :: "Column list"

record State =
  heap :: "addr \<Rightarrow> CellData list"
  heap_next :: addr
  gridData :: "addr list"
  data_columns :: "Column list"
  history :: "HistoryState list"
  historyIndex :: int
  sortColumn :: "int option"
  sortDirection :: SortDirection

definition deepCopy :: "(addr \<Rightarrow> CellData list) \<Rightarrow> addr list \<Rightarrow> Grid" where
  \<comment> \<open>\<^verbatim>\<open>JSON.parse(JSON.stringify(gridData))\<close>: the contents of the rows, as a value\<close>
  "deepCopy h rows = map h rows"

definition grid_of :: "State \<Rightarrow> Grid" where
  \<comment> \<open>the grid contents of a state\<close>
  "grid_of st = deepCopy (heap st) (gridData st)"

definition newestSnapshot :: "State \<Rightarrow> Grid" where
  \<comment> \<open>\<^verbatim>\<open>history[historyIndex].gridData\<close>, the grid of the entry the cursor is on\<close>
  "newestSnapshot st = snapshot_gridData (history st ! nat (historyIndex st))"

definition allocRows ::
  "(addr \<Rightarrow> CellData list) \<Rightarrow> addr \<Rightarrow> Grid \<Rightarrow> (addr \<Rightarrow> CellData list) \<times> addr list \<times> addr" where
  \<comment> \<open>fresh row arrays for a grid value: the new store, the addresses, the next free address\<close>
  "allocRows h n rows =
     ((\<lambda>a. if n \<le> a \<and> a < n + length rows then rows ! (a - n) else h a),
      [n ..< n + length rows],
      n + length rows)"

definition emptyFormat :: CellFormat where
  \<comment> \<open>\<^verbatim>\<open>format: {}\<close>\<close>
  "emptyFormat = \<lparr>bold = None, italic = None, alignment = None, backgroundColor = None\<rparr>"

definition initialGrid :: "Column list \<Rightarrow> (string \<rightharpoonup> jsval) list \<Rightarrow> Grid" where
  \<comment> \<open>the initializer of \<^verbatim>\<open>gridData\<close>: one cell per column for every item\<close>
  "initialGrid cols items =
     map (\<lambda>item. map (\<lambda>c. \<lparr>cell_value = (case item (key c) of Some v \<Rightarrow> v | None \<Rightarrow> Str []),
                            cell_format = Some emptyFormat,
                            cell_formula = None\<rparr>) cols) items"

definition initialState :: "Column list \<Rightarrow> (string \<rightharpoonup> jsval) list \<Rightarrow> State" where
  \<comment> \<open>the state of the first render, and the effect that puts the first snapshot into the
      empty history\<close>
  "initialState cols items =
     (let (h, rows, n) = allocRows (\<lambda>a. []) 0 (initialGrid cols items)
      in \<lparr>heap = h, heap_next = n, gridData = rows, data_columns = cols,
          history = [\<lparr>snapshot_gridData = deepCopy h rows, snapshot_columns = cols\<rparr>],
          historyIndex = 0, sortColumn = None, sortDirection = Asc\<rparr>)"

definition saveToHistory :: "(addr \<Rightarrow> CellData list) \<Rightarrow> State \<Rightarrow> HistoryState list \<times> int" where
  \<comment> \<open>the new \<^verbatim>\<open>history\<close> and \<^verbatim>\<open>historyIndex\<close>. \<^verbatim>\<open>gridData\<close>, \<^verbatim>\<open>history\<close> and
      \<^verbatim>\<open>historyIndex\<close> are the ones of the render; the store is the one at the call, with the
      writes the handler has made into row arrays\<close>
  "saveToHistory h st =
     (let newHistory = slice (history st) 0 (historyIndex st + 1)
                       @ [\<lparr>snapshot_gridData = deepCopy h (gridData st),
                           snapshot_columns = data_columns st\<rparr>]
      in (newHistory, int (length newHistory) - 1))"

definition undo :: "State \<Rightarrow> State option" where
  \<comment> \<open>None: \<^verbatim>\<open>history[historyIndex - 1]\<close> is undefined and reading it throws\<close>
  "undo st =
     (if historyIndex st > 0 then
        (if historyIndex st - 1 < int (length (history st)) then
           (let previousState = history st ! nat (historyIndex st - 1);
                (h, rows, n) = allocRows (heap st) (heap_next st) (snapshot_gridData previousState)
            in Some (st\<lparr>heap := h, heap_next := n, gridData := rows,
                        historyIndex := historyIndex st - 1\<rparr>))
         else None)
      else Some st)"

definition redo :: "State \<Rightarrow> State option" where
  "redo st =
     (if historyIndex st < int (length (history st)) - 1 then
        (if 0 \<le> historyIndex st + 1 then
           (let nextState = history st ! nat (historyIndex st + 1);
                (h, rows, n) = allocRows (heap st) (heap_next st) (snapshot_gridData nextState)
            in Some (st\<lparr>heap := h, heap_next := n, gridData := rows,
                        historyIndex := historyIndex st + 1\<rparr>))
         else None)
      else Some st)"

definition handleSort ::
  "(rat \<Rightarrow> jsnum) \<Rightarrow> (jsnum \<Rightarrow> string) \<Rightarrow> State \<Rightarrow> int \<Rightarrow> State option" where
  \<comment> \<open>None: a row has no cell at \<^verbatim>\<open>colIndex\<close> and the comparator throws. The comparator is
      called only when there are two rows or more.\<close>
  "handleSort rnd toStr st colIndex =
     (let newDirection = (if sortColumn st = Some colIndex \<and> sortDirection st = Asc
                          then Desc else Asc)
      in if length (gridData st) \<ge> 2
            \<and> list_ex (\<lambda>a. \<not> (0 \<le> colIndex \<and> colIndex < int (length (heap st a))))
                  (gridData st)
         then None
         else
           (let sorted = js_sort (\<lambda>a b. compareValues rnd toStr newDirection
                                      (cell_value (heap st a ! nat colIndex))
                                      (cell_value (heap st b ! nat colIndex)))
                           (gridData st);
                (newHistory, newIndex) = saveToHistory (heap st) st
            in Some (st\<lparr>sortColumn := Some colIndex, sortDirection := newDirection,
                        gridData := sorted, history := newHistory, historyIndex := newIndex\<rparr>)))"

definition clearCell :: "State \<Rightarrow> int \<Rightarrow> int \<Rightarrow> State option" where
  \<comment> \<open>None: no cell at \<^verbatim>\<open>[row][col]\<close>, reading its format throws. \<^verbatim>\<open>updated\<close> is a new outer
      array over the same row arrays, so the write goes into the row that \<^verbatim>\<open>gridData\<close> holds.\<close>
  "clearCell st r c =
     (if 0 \<le> r \<and> r < int (length (gridData st)) \<and> 0 \<le> c
         \<and> c < int (length (heap st (gridData st ! nat r)))
      then
        (let a = gridData st ! nat r;
             old = heap st a;
             h = (heap st)(a := old[nat c := \<lparr>cell_value = Str [],
                                             cell_format = cell_format (old ! nat c),
                                             cell_formula = None\<rparr>]);
             (newHistory, newIndex) = saveToHistory h st
         in Some (st\<lparr>heap := h, history := newHistory, historyIndex := newIndex\<rparr>))
      else None)"

definition handleKeyDown_Delete :: "State \<Rightarrow> CellPosition option \<Rightarrow> State option" where
  \<comment> \<open>the cases \<^verbatim>\<open>'Delete'\<close> and \<^verbatim>\<open>'Backspace'\<close> of \<^verbatim>\<open>handleKeyDown\<close>, reached outside an
      input field, without Ctrl or Cmd and while no cell is being edited; the argument is
      \<^verbatim>\<open>selectedCell\<close>\<close>
  "handleKeyDown_Delete st selected =
     (case selected of
        None \<Rightarrow> Some st
      | Some p \<Rightarrow> (if row p \<noteq> -1 then clearCell st (row p) (col p) else Some st))"

section \<open>Properties of the coordinate codec\<close>

lemma charCode_fromCharCode: "0 \<le> n \<Longrightarrow> n < 256 \<Longrightarrow> charCode (fromCharCode n) = n"
  unfolding charCode_def fromCharCode_def
  by simp

lemma columnLetterToIndex_loop_append:
  "columnLetterToIndex_loop a (xs @ ys)
     = columnLetterToIndex_loop (columnLetterToIndex_loop a xs) ys"
  by (induction xs arbitrary: a) auto

lemma getColumnLetter_loop_acc:
  "getColumnLetter_loop i res = getColumnLetter_loop i [] @ res"
proof (induction "nat (i + 1)" arbitrary: i res rule: less_induct)
  case less
  show ?case
  proof (cases "i \<ge> 0")
    case True
    let ?j = "i div 26 - 1" and ?c = "fromCharCode (65 + i mod 26)"
    have smaller: "nat (?j + 1) < nat (i + 1)"
      using True by simp
    have "getColumnLetter_loop i res = getColumnLetter_loop ?j (?c # res)"
      using True by (simp add: getColumnLetter_loop.simps [of i])
    also have "\<dots> = getColumnLetter_loop ?j [] @ (?c # res)"
      by (rule less [OF smaller])
    also have "\<dots> = (getColumnLetter_loop ?j [] @ [?c]) @ res"
      by simp
    also have "getColumnLetter_loop ?j [] @ [?c] = getColumnLetter_loop ?j [?c]"
      by (rule less [OF smaller, symmetric])
    also have "getColumnLetter_loop ?j [?c] = getColumnLetter_loop i []"
      using True by (simp add: getColumnLetter_loop.simps [of i])
    finally show ?thesis .
  next
    case False
    then show ?thesis by (simp add: getColumnLetter_loop.simps [of i])
  qed
qed

lemma getColumnLetter_unfold:
  "0 \<le> i \<Longrightarrow>
     getColumnLetter i = getColumnLetter (i div 26 - 1) @ [fromCharCode (65 + i mod 26)]"
  unfolding getColumnLetter_def
  by (subst getColumnLetter_loop.simps, subst getColumnLetter_loop_acc) simp

lemma getColumnLetter_neg: "i < 0 \<Longrightarrow> getColumnLetter i = []"
  unfolding getColumnLetter_def by (simp add: getColumnLetter_loop.simps)

lemma columnLetterToIndex_loop_getColumnLetter:
  "-1 \<le> i \<Longrightarrow> columnLetterToIndex_loop 0 (getColumnLetter i) = i + 1"
proof (induction "nat (i + 1)" arbitrary: i rule: less_induct)
  case less
  show ?case
  proof (cases "i \<ge> 0")
    case True
    let ?j = "i div 26 - 1"
    have smaller: "nat (?j + 1) < nat (i + 1)" and lower: "-1 \<le> ?j"
      using True by simp_all
    have code: "charCode (fromCharCode (65 + i mod 26)) = 65 + i mod 26"
      by (rule charCode_fromCharCode) simp_all
    have "columnLetterToIndex_loop 0 (getColumnLetter i)
        = columnLetterToIndex_loop 0 (getColumnLetter ?j) * 26 + (i mod 26 + 1)"
      by (simp add: getColumnLetter_unfold [OF True] columnLetterToIndex_loop_append code)
    also have "\<dots> = (?j + 1) * 26 + (i mod 26 + 1)"
      by (simp only: less (1) [OF smaller lower])
    also have "\<dots> = i + 1"
      by simp
    finally show ?thesis .
  next
    case False
    with less.prems have "i = -1" by simp
    then show ?thesis by (simp add: getColumnLetter_neg)
  qed
qed

lemma column_round_trip_all:
  "0 \<le> i \<Longrightarrow> columnLetterToIndex (getColumnLetter i) = i"
  by (simp add: columnLetterToIndex_def columnLetterToIndex_loop_getColumnLetter)

text \<open>
  Claim C7. For every index i with \<open>0 \<le> i < 1000\<close>, the letters that \<^verbatim>\<open>getColumnLetter\<close>
  gives for i are decoded by \<^verbatim>\<open>columnLetterToIndex\<close> to i again. (The lemma before this one
  shows it for every \<open>i \<ge> 0\<close>.)
\<close>

theorem codec_round_trip:
  "0 \<le> i \<Longrightarrow> i < 1000 \<Longrightarrow> columnLetterToIndex (getColumnLetter i) = i"
  by (rule column_round_trip_all)

theorem codec_round_trip_witness:
  "(0::int) \<le> 27 \<and> (27::int) < 1000 \<and> getColumnLetter 27 = ''AB''
   \<and> columnLetterToIndex (getColumnLetter 27) = 27"
proof -
  have letters: "getColumnLetter 27 = ''AB''"
    by code_simp
  show ?thesis
    using codec_round_trip [of 27] letters by simp
qed

subsection \<open>References\<close>

lemma isDigit_digit: "k < 10 \<Longrightarrow> isDigit (fromCharCode (48 + int k))"
  by (simp add: isDigit_def charCode_fromCharCode)

lemma toString_nat_digits: "list_all isDigit (toString_nat n) \<and> toString_nat n \<noteq> []"
proof (induction n rule: toString_nat.induct)
  case (1 n)
  show ?case
  proof (cases "n < 10")
    case True
    then show ?thesis
      by (subst toString_nat.simps, subst (2) toString_nat.simps) (simp add: isDigit_digit)
  next
    case False
    with 1 show ?thesis
      by (subst toString_nat.simps, subst (2) toString_nat.simps) (simp add: isDigit_digit)
  qed
qed

lemma parseInt_loop_append:
  "parseInt_loop a (xs @ ys) = parseInt_loop (parseInt_loop a xs) ys"
  by (induction xs arbitrary: a) simp_all

lemma parseInt_toString_nat: "parseInt (toString_nat n) = int n"
proof (induction n rule: toString_nat.induct)
  case (1 n)
  show ?case
  proof (cases "n < 10")
    case True
    then show ?thesis
      by (subst toString_nat.simps) (simp add: parseInt_def charCode_fromCharCode)
  next
    case False
    have code: "charCode (fromCharCode (48 + int (n mod 10))) = 48 + int (n mod 10)"
      by (rule charCode_fromCharCode) simp_all
    have "parseInt (toString_nat n) = parseInt (toString_nat (n div 10)) * 10 + int (n mod 10)"
      using False
      by (subst toString_nat.simps) (simp add: parseInt_def parseInt_loop_append code)
    also have "\<dots> = int (n div 10) * 10 + int (n mod 10)"
      using 1 False by simp
    also have "\<dots> = int n"
      by (simp add: zmod_int zdiv_int)
    finally show ?thesis .
  qed
qed

lemma isDigit_not_upper: "isDigit c \<Longrightarrow> \<not> isUpperAZ c"
  by (simp add: isDigit_def isUpperAZ_def)

lemma match_ref_letter_digits:
  assumes "isUpperAZ l" and "list_all isDigit ds" and "ds \<noteq> []"
  shows "match_ref (l # ds) = Some ([l], ds)"
proof -
  from assms(2,3) obtain d ds' where ds: "ds = d # ds'" and d: "isDigit d"
    by (cases ds) auto
  have "takeWhile isUpperAZ (l # ds) = [l]" "dropWhile isUpperAZ (l # ds) = ds"
    using assms(1) d by (simp_all add: ds isDigit_not_upper)
  then show ?thesis
    using assms(2,3) by (simp add: match_ref_def Let_def)
qed

text \<open>
  With a column below 26 the reference has one letter, and decoding it gives the position
  back, the header row -1 included.
\<close>

lemma reference_one_letter_round_trip:
  assumes "-1 \<le> r" and "0 \<le> c" and "c < 26"
  shows "decodeRef (getCellReference r c) = Some \<lparr>row = r, col = c\<rparr>"
proof -
  define rowNumber where "rowNumber = (if r = -1 then 1 else r + 2)"
  have pos: "0 < rowNumber" and rowback: "rowNumber - 2 = r"
    using assms(1) by (auto simp: rowNumber_def)
  have ref: "getCellReference r c = fromCharCode (65 + c) # toString_nat (nat rowNumber)"
    using pos by (simp add: getCellReference_def Let_def toString_int_def rowNumber_def)
  have code: "charCode (fromCharCode (65 + c)) = 65 + c"
    using assms(2,3) by (intro charCode_fromCharCode) simp_all
  then have up: "isUpperAZ (fromCharCode (65 + c))"
    using assms(2,3) by (simp add: isUpperAZ_def)
  have m: "match_ref (getCellReference r c)
      = Some ([fromCharCode (65 + c)], toString_nat (nat rowNumber))"
    unfolding ref using up toString_nat_digits by (intro match_ref_letter_digits) simp_all
  show ?thesis
    using pos rowback by (simp add: decodeRef_def m Let_def parseInt_toString_nat
        columnLetterToIndex_def code)
qed

text \<open>\<^verbatim>\<open>getCellValue\<close> looks up the position that \<^term>\<open>decodeRef\<close> gives.\<close>

lemma getCellValue_decodes:
  "getCellValue columns grid cellRef =
     (case decodeRef cellRef of
        None \<Rightarrow> Num (Finite 0)
      | Some p \<Rightarrow>
          (if row p = -1 then
             (if 0 \<le> col p \<and> col p < int (length columns)
              then js_or (Str (name (columns ! nat (col p)))) (Str [])
              else Str [])
           else if row p \<ge> 0 \<and> row p < int (length grid) \<and> col p \<ge> 0
                   \<and> col p < int (length (grid ! nat (row p)))
           then js_or (cell_value (grid ! nat (row p) ! nat (col p))) (Num (Finite 0))
           else Num (Finite 0)))"
proof (cases "match_ref cellRef")
  case None
  then show ?thesis by (simp add: decodeRef_def getCellValue_def)
next
  case (Some m)
  obtain l d where m: "m = (l, d)" by (cases m)
  have "parseInt d = 1 \<longleftrightarrow> parseInt d - 2 = -1" by auto
  then show ?thesis
    by (simp add: decodeRef_def getCellValue_def Let_def Some m)
qed

text \<open>
  Claim C6. A position (row, col) with row in -1..50 is to come back from
  \<^verbatim>\<open>getCellReference\<close> followed by the decoding of \<^verbatim>\<open>getCellValue\<close>. At column 26 it does
  not: \<^verbatim>\<open>getCellReference\<close> builds the column from one character code, \<^verbatim>\<open>65 + col\<close>, which
  is \<^verbatim>\<open>[\<close> there, and the reference does not parse. \<^verbatim>\<open>getColumnLetter\<close> gives \<^verbatim>\<open>AA\<close> for
  the same column, and that reference decodes to the position.
\<close>

theorem reference_round_trip_fails_at_column_26:
  "getCellReference 0 26 = ''[2''
   \<and> decodeRef (getCellReference 0 26) = None
   \<and> getColumnLetter 26 = ''AA''
   \<and> decodeRef (getColumnLetter 26 @ ''2'') = Some \<lparr>row = 0, col = 26\<rparr>"
  by code_simp

section \<open>Properties of the viewport window\<close>

text \<open>
  Claim C2, as the code has it. When the window starts inside the data, that is
  \<open>\<lfloor>scrollTop / ROW_HEIGHT\<rfloor> - BUFFER_SIZE \<le> totalRows\<close>, then
  \<open>0 \<le> startIndex \<le> endIndex \<le> totalRows\<close>, the rows rendered are those from
  \<open>startIndex\<close> up to \<open>endIndex\<close>, the spacers are \<open>startIndex * ROW_HEIGHT\<close> and
  \<open>(totalRows - endIndex) * ROW_HEIGHT\<close>, and the three heights add up to
  \<open>totalRows * ROW_HEIGHT\<close>.
\<close>

theorem viewport_window_invariants:
  assumes "0 \<le> scrollTop" and "0 \<le> containerHeight"
    and "\<lfloor>scrollTop / of_int ROW_HEIGHT\<rfloor> - BUFFER_SIZE \<le> int (length rows)"
  shows "0 \<le> startIndex (virtualScroll rows scrollTop containerHeight)
    \<and> startIndex (virtualScroll rows scrollTop containerHeight)
        \<le> endIndex (virtualScroll rows scrollTop containerHeight)
    \<and> endIndex (virtualScroll rows scrollTop containerHeight) \<le> int (length rows)
    \<and> visibleRows (virtualScroll rows scrollTop containerHeight)
        = take (nat (endIndex (virtualScroll rows scrollTop containerHeight)
                     - startIndex (virtualScroll rows scrollTop containerHeight)))
            (drop (nat (startIndex (virtualScroll rows scrollTop containerHeight))) rows)
    \<and> leadingSpacer (virtualScroll rows scrollTop containerHeight)
        = startIndex (virtualScroll rows scrollTop containerHeight) * ROW_HEIGHT
    \<and> trailingSpacer rows (virtualScroll rows scrollTop containerHeight)
        = (int (length rows) - endIndex (virtualScroll rows scrollTop containerHeight)) * ROW_HEIGHT
    \<and> leadingSpacer (virtualScroll rows scrollTop containerHeight)
        + int (length (visibleRows (virtualScroll rows scrollTop containerHeight))) * ROW_HEIGHT
        + trailingSpacer rows (virtualScroll rows scrollTop containerHeight)
        = int (length rows) * ROW_HEIGHT"
proof -
  define total where "total = int (length rows)"
  define s where "s = max 0 (\<lfloor>scrollTop / of_int ROW_HEIGHT\<rfloor> - BUFFER_SIZE)"
  define cnt where
    "cnt = min total (\<lceil>containerHeight / of_int ROW_HEIGHT\<rceil> + BUFFER_SIZE * 2)"
  define e where "e = min total (s + cnt)"
  have "0 \<le> containerHeight / of_int ROW_HEIGHT"
    using assms(2) by (simp add: ROW_HEIGHT_def)
  then have "0 \<le> \<lceil>containerHeight / of_int ROW_HEIGHT\<rceil>"
    by (simp add: zero_le_ceiling order_less_le_trans [of "-1" 0])
  then have cnt0: "0 \<le> cnt"
    by (simp add: cnt_def total_def BUFFER_SIZE_def)
  have s0: "0 \<le> s" and st: "s \<le> total"
    using assms(3) by (simp_all add: s_def total_def)
  have se: "s \<le> e" and et: "e \<le> total"
    using cnt0 st by (simp_all add: e_def)
  let ?v = "\<lparr>visibleRows = slice rows s e, totalHeight = total * ROW_HEIGHT,
       offsetY = s * ROW_HEIGHT, startIndex = s, endIndex = e\<rparr>"
  have v: "virtualScroll rows scrollTop containerHeight = ?v"
    by (simp add: virtualScroll_def Let_def s_def e_def cnt_def total_def)
  have sl: "slice rows s e = take (nat (e - s)) (drop (nat s) rows)"
    using s0 se et st by (simp add: slice_def Let_def total_def min_def)
  have len: "int (length (visibleRows ?v)) = e - s"
    using s0 se et st by (simp add: sl total_def)
  have sel: "startIndex ?v = s" "endIndex ?v = e" "visibleRows ?v = slice rows s e"
    by simp_all
  have lead: "leadingSpacer ?v = s * ROW_HEIGHT"
    using s0 by (simp add: leadingSpacer_def)
  have trail: "trailingSpacer rows ?v = (total - e) * ROW_HEIGHT"
    using et by (simp add: trailingSpacer_def total_def)
  have total: "s * ROW_HEIGHT + (e - s) * ROW_HEIGHT + (total - e) * ROW_HEIGHT
      = total * ROW_HEIGHT"
    by (simp add: algebra_simps)
  show ?thesis
    unfolding v lead trail len total_def [symmetric]
    unfolding sel
    using s0 se et sl total by blast
qed

theorem viewport_window_invariants_witness:
  "(0::rat) \<le> 1000 \<and> (0::rat) \<le> 600
   \<and> \<lfloor>(1000::rat) / of_int ROW_HEIGHT\<rfloor> - BUFFER_SIZE \<le> int (length (replicate 100 ()))
   \<and> startIndex (virtualScroll (replicate 100 ()) 1000 600) = 15
   \<and> endIndex (virtualScroll (replicate 100 ()) 1000 600) = 50
   \<and> leadingSpacer (virtualScroll (replicate 100 ()) 1000 600)
        + int (length (visibleRows (virtualScroll (replicate 100 ()) 1000 600))) * ROW_HEIGHT
        + trailingSpacer (replicate 100 ()) (virtualScroll (replicate 100 ()) 1000 600)
        = int (length (replicate 100 ())) * ROW_HEIGHT"
proof -
  have h: "\<lfloor>(1000::rat) / of_int ROW_HEIGHT\<rfloor> - BUFFER_SIZE \<le> int (length (replicate 100 ()))"
    by (simp add: ROW_HEIGHT_def BUFFER_SIZE_def)
  have s: "startIndex (virtualScroll (replicate 100 ()) 1000 600) = 15"
    and e: "endIndex (virtualScroll (replicate 100 ()) 1000 600) = 50"
    by (simp_all add: virtualScroll_def Let_def ROW_HEIGHT_def BUFFER_SIZE_def)
  show ?thesis
    using viewport_window_invariants [of 1000 600 "replicate 100 ()", OF _ _ h] h s e
    by simp
qed

text \<open>
  Claim C2 as stated, for all \<open>totalRows \<ge> 0\<close> and \<open>scrollOffset \<ge> 0\<close>, fails when the
  scroll offset lies beyond the data: two rows, scrolled to 1000 in a container of 600,
  give \<open>startIndex = 15 > endIndex = 2\<close>, no row, and spacers of 600 against a total height
  of 80.
\<close>

theorem viewport_scrolled_past_the_data:
  "startIndex (virtualScroll [(), ()] 1000 600) = 15
   \<and> endIndex (virtualScroll [(), ()] 1000 600) = 2
   \<and> leadingSpacer (virtualScroll [(), ()] 1000 600)
       + int (length (visibleRows (virtualScroll [(), ()] 1000 600))) * ROW_HEIGHT
       + trailingSpacer [(), ()] (virtualScroll [(), ()] 1000 600) = 600
   \<and> int (length [(), ()]) * ROW_HEIGHT = 80"
  by code_simp

section \<open>Properties of the formula engine\<close>


lemma in_set_dropWhile: "x \<in> set xs \<Longrightarrow> \<not> P x \<Longrightarrow> x \<in> set (dropWhile P xs)"
  by (induction xs) auto

lemma set_trim: "set (trim s) \<subseteq> set s"
proof
  fix x assume "x \<in> set (trim s)"
  then have "x \<in> set (dropWhile isSpace (rev (dropWhile isSpace s)))"
    by (simp add: trim_def)
  then have "x \<in> set (rev (dropWhile isSpace s))"
    by (rule set_dropWhileD)
  then have "x \<in> set (dropWhile isSpace s)"
    by simp
  then show "x \<in> set s"
    by (rule set_dropWhileD)
qed

lemma in_set_trim: "x \<in> set s \<Longrightarrow> \<not> isSpace x \<Longrightarrow> x \<in> set (trim s)"
  unfolding trim_def by (simp add: in_set_dropWhile)

text \<open>
  Trimming removes only characters of the class, so the trimmed, upper-cased text of a
  formula has a character outside the class exactly when the upper case of one of the
  characters of the formula has one.
\<close>

lemma outside_class_trimmed:
  "(\<exists>c \<in> set (trim (toUpperCase formula)). \<not> arithChar c)
     \<longleftrightarrow> (\<exists>c \<in> set formula. \<exists>d \<in> set (toUpperChars c). \<not> arithChar d)"
proof
  assume "\<exists>c \<in> set (trim (toUpperCase formula)). \<not> arithChar c"
  then obtain c where "c \<in> set (toUpperCase formula)" "\<not> arithChar c"
    using set_trim by blast
  then show "\<exists>c \<in> set formula. \<exists>d \<in> set (toUpperChars c). \<not> arithChar d"
    by (auto simp: toUpperCase_def)
next
  assume "\<exists>c \<in> set formula. \<exists>d \<in> set (toUpperChars c). \<not> arithChar d"
  then obtain c d where c: "c \<in> set formula" "d \<in> set (toUpperChars c)" "\<not> arithChar d"
    by blast
  then have "d \<in> set (toUpperCase formula)" "\<not> isSpace d"
    by (auto simp: toUpperCase_def arithChar_def)
  then have "d \<in> set (trim (toUpperCase formula))"
    by (rule in_set_trim)
  with c(3) show "\<exists>c \<in> set (trim (toUpperCase formula)). \<not> arithChar c"
    by blast
qed

text \<open>
  Upper-casing is that of the language, not only of the letters a-z: the sharp s becomes
  \<^verbatim>\<open>SS\<close>, so that the formula made of the sharp s and \<^verbatim>\<open>2+1\<close> is the arithmetic expression
  \<^verbatim>\<open>SS2+1\<close>, whose reference is replaced by the number of the cell.
\<close>

lemma sharp_s_is_upper_cased:
  "toUpperCase (char_of (223::nat) # ''2+1'') = ''SS2+1''
   \<and> evaluateFormula_step (argumentLimit 65536) noRounding numberToString [] [] (char_of (223::nat) # ''2+1'')
       = EvalExpression ''0+1''"
  by code_simp



subsection \<open>Aggregates\<close>

lemma startsWith_append: "startsWith u p \<Longrightarrow> \<exists>r. u = p @ r"
  by (metis append_take_drop_id startsWith_def)

lemma numericValues_append: "numericValues (xs @ ys) = numericValues xs @ numericValues ys"
  by (induction xs rule: numericValues.induct) simp_all

lemma set_numericValues: "n \<in> set (numericValues vs) \<longleftrightarrow> Num n \<in> set vs"
  by (induction vs rule: numericValues.induct) auto

lemma js_or_not_NaN: "d \<noteq> Num NaN \<Longrightarrow> js_or v d \<noteq> Num NaN"
  by (cases v) (auto simp: js_or_def truthy_def)

lemma getCellValue_not_NaN: "getCellValue columns grid cellRef \<noteq> Num NaN"
  unfolding getCellValue_def Let_def
  by (simp add: js_or_not_NaN split: option.splits prod.splits)

lemma getCellsInRange_not_NaN: "Num NaN \<notin> set (getCellsInRange columns grid rangeStr)"
proof -
  have "Num NaN \<noteq> getCellValue columns grid r" for r
    using getCellValue_not_NaN [of columns grid r] by simp
  then show ?thesis
    by (auto simp: getCellsInRange_def Let_def
        split: list.splits option.splits prod.splits if_splits)
qed

lemma expandedValues_not_NaN: "NaN \<notin> set (numericValues (expandedValues columns grid u k))"
  by (auto simp: set_numericValues expandedValues_def argumentValues_def getCellsInRange_not_NaN)

lemma foldl_numberOrZero:
  "foldl (\<lambda>acc v. js_add rnd acc (numberOrZero v)) a vs
     = foldl (js_add rnd) a (map numberOrZero vs)"
  by (simp add: foldl_map)

lemma sum_loop:
  "foldl (\<lambda>sum arg. js_add rnd sum
            (foldl (\<lambda>acc v. js_add rnd acc (numberOrZero v)) (Finite 0) (cells arg))) a args
   = foldl (js_add rnd) a (map (\<lambda>vs. js_sum rnd (map numberOrZero vs)) (map cells args))"
  by (induction args arbitrary: a) (simp_all add: js_sum_def foldl_numberOrZero)

lemma average_loop:
  "foldl (\<lambda>(sum, count) arg.
      (js_add rnd sum (foldl (js_add rnd) (Finite 0) (numericValues (cells arg))),
       count + length (numericValues (cells arg))))
     (a, k :: nat) args
   = (foldl (js_add rnd) a (map (\<lambda>vs. js_sum rnd (numericValues vs)) (map cells args)),
      k + length (numericValues (concat (map cells args))))"
  by (induction args arbitrary: a k) (simp_all add: numericValues_append js_sum_def)

lemma count_loop:
  "foldl (\<lambda>count arg. count + length (numericValues (cells arg))) k args
   = k + length (numericValues (concat (map cells args)))"
  by (induction args arbitrary: k) (simp_all add: numericValues_append)

lemma max_loop_refused:
  "foldl (\<lambda>acc arg. case acc of None \<Rightarrow> None
            | Some m \<Rightarrow> if 0 < length (numericValues (cells arg))
                        then Math_max accepts m (numericValues (cells arg)) else Some m) None args
   = None"
  by (induction args) simp_all

lemma max_loop:
  "foldl (\<lambda>acc arg. case acc of None \<Rightarrow> None
            | Some m \<Rightarrow> if 0 < length (numericValues (cells arg))
                        then Math_max accepts m (numericValues (cells arg)) else Some m)
     (Some a) args
   = (if accepted accepts (map cells args)
      then Some (foldl js_max2 a (numericValues (concat (map cells args)))) else None)"
proof (induction args arbitrary: a)
  case Nil
  then show ?case by (simp add: accepted_def)
next
  case (Cons arg args)
  show ?case
  proof (cases "numericValues (cells arg) = []
      \<or> accepts (Suc (length (numericValues (cells arg))))")
    case True
    then show ?thesis
      using Cons.IH by (auto simp: accepted_def numericValues_append Math_max_def)
  next
    case False
    then show ?thesis
      by (simp add: accepted_def Math_max_def max_loop_refused)
  qed
qed

lemma min_loop_refused:
  "foldl (\<lambda>acc arg. case acc of None \<Rightarrow> None
            | Some m \<Rightarrow> if 0 < length (numericValues (cells arg))
                        then Math_min accepts m (numericValues (cells arg)) else Some m) None args
   = None"
  by (induction args) simp_all

lemma min_loop:
  "foldl (\<lambda>acc arg. case acc of None \<Rightarrow> None
            | Some m \<Rightarrow> if 0 < length (numericValues (cells arg))
                        then Math_min accepts m (numericValues (cells arg)) else Some m)
     (Some a) args
   = (if accepted accepts (map cells args)
      then Some (foldl js_min2 a (numericValues (concat (map cells args)))) else None)"
proof (induction args arbitrary: a)
  case Nil
  then show ?case by (simp add: accepted_def)
next
  case (Cons arg args)
  show ?case
  proof (cases "numericValues (cells arg) = []
      \<or> accepts (Suc (length (numericValues (cells arg))))")
    case True
    then show ?thesis
      using Cons.IH by (auto simp: accepted_def numericValues_append Math_min_def)
  next
    case False
    then show ?thesis
      by (simp add: accepted_def Math_min_def min_loop_refused)
  qed
qed

lemma js_le_refl: "x \<noteq> NaN \<Longrightarrow> js_le x x"
  by (cases x) simp_all

lemma js_le_total: "x \<noteq> NaN \<Longrightarrow> y \<noteq> NaN \<Longrightarrow> js_le x y \<or> js_le y x"
  by (cases x; cases y) auto

lemma js_le_trans: "js_le x y \<Longrightarrow> js_le y z \<Longrightarrow> js_le x z"
  by (cases x; cases y; cases z) simp_all

lemma js_le_antisym: "js_le x y \<Longrightarrow> js_le y x \<Longrightarrow> x = y"
  by (cases x; cases y) simp_all

lemma js_le_NegInfinity: "x \<noteq> NaN \<Longrightarrow> js_le NegInfinity x"
  by (cases x) simp_all

lemma js_le_Infinity: "x \<noteq> NaN \<Longrightarrow> js_le x Infinity"
  by (cases x) simp_all

lemma foldl_js_max2:
  assumes "acc \<noteq> NaN" and "NaN \<notin> set ns"
  shows "foldl js_max2 acc ns \<in> set (acc # ns)
       \<and> (\<forall>n \<in> set (acc # ns). js_le n (foldl js_max2 acc ns))"
  using assms
proof (induction ns arbitrary: acc)
  case Nil
  then show ?case by (simp add: js_le_refl)
next
  case (Cons n ns)
  then have n: "n \<noteq> NaN" and ns: "NaN \<notin> set ns" by auto
  let ?a = "js_max2 acc n"
  have a: "?a \<noteq> NaN" "?a = acc \<or> ?a = n" "js_le acc ?a" "js_le n ?a"
    using Cons.prems(1) n js_le_total [of acc n] by (auto simp: js_max2_def js_le_refl)
  from Cons.IH [OF a(1) ns]
  have ih: "foldl js_max2 ?a ns \<in> set (?a # ns)"
    "\<forall>x \<in> set (?a # ns). js_le x (foldl js_max2 ?a ns)"
    by blast+
  from ih(2) have top: "js_le ?a (foldl js_max2 ?a ns)" by simp
  show ?case
    using ih a(2) js_le_trans [OF a(3) top] js_le_trans [OF a(4) top] by auto
qed

lemma foldl_js_min2:
  assumes "acc \<noteq> NaN" and "NaN \<notin> set ns"
  shows "foldl js_min2 acc ns \<in> set (acc # ns)
       \<and> (\<forall>n \<in> set (acc # ns). js_le (foldl js_min2 acc ns) n)"
  using assms
proof (induction ns arbitrary: acc)
  case Nil
  then show ?case by (simp add: js_le_refl)
next
  case (Cons n ns)
  then have n: "n \<noteq> NaN" and ns: "NaN \<notin> set ns" by auto
  let ?a = "js_min2 acc n"
  have a: "?a \<noteq> NaN" "?a = acc \<or> ?a = n" "js_le ?a acc" "js_le ?a n"
    using Cons.prems(1) n js_le_total [of acc n] by (auto simp: js_min2_def js_le_refl)
  from Cons.IH [OF a(1) ns]
  have ih: "foldl js_min2 ?a ns \<in> set (?a # ns)"
    "\<forall>x \<in> set (?a # ns). js_le (foldl js_min2 ?a ns) x"
    by blast+
  from ih(2) have bot: "js_le (foldl js_min2 ?a ns) ?a" by simp
  show ?case
    using ih a(2) js_le_trans [OF bot a(3)] js_le_trans [OF bot a(4)] by auto
qed

lemma greatest_foldl:
  assumes "NaN \<notin> set ns" and "ns \<noteq> []"
  shows "greatest ns (foldl js_max2 NegInfinity ns)"
proof -
  let ?m = "foldl js_max2 NegInfinity ns"
  have m: "?m \<in> set (NegInfinity # ns)" "\<forall>n \<in> set (NegInfinity # ns). js_le n ?m"
    using foldl_js_max2 [of NegInfinity ns] assms(1) by blast+
  have "?m \<in> set ns"
  proof (cases "?m = NegInfinity")
    case True
    obtain n where n: "n \<in> set ns" using assms(2) by (cases ns) auto
    with m(2) True have "js_le n NegInfinity" by simp
    moreover have "js_le NegInfinity n" using n assms(1) by (intro js_le_NegInfinity) auto
    ultimately have "n = NegInfinity" by (rule js_le_antisym)
    with n True show ?thesis by simp
  next
    case False
    with m(1) show ?thesis by simp
  qed
  with m(2) show ?thesis by (simp add: greatest_def list_all_iff)
qed

lemma least_foldl:
  assumes "NaN \<notin> set ns" and "ns \<noteq> []"
  shows "least ns (foldl js_min2 Infinity ns)"
proof -
  let ?m = "foldl js_min2 Infinity ns"
  have m: "?m \<in> set (Infinity # ns)" "\<forall>n \<in> set (Infinity # ns). js_le ?m n"
    using foldl_js_min2 [of Infinity ns] assms(1) by blast+
  have "?m \<in> set ns"
  proof (cases "?m = Infinity")
    case True
    obtain n where n: "n \<in> set ns" using assms(2) by (cases ns) auto
    with m(2) True have "js_le Infinity n" by simp
    moreover have "js_le n Infinity" using n assms(1) by (intro js_le_Infinity) auto
    ultimately have "n = Infinity" by (simp add: js_le_antisym)
    with n True show ?thesis by simp
  next
    case False
    with m(1) show ?thesis by simp
  qed
  with m(2) show ?thesis by (simp add: least_def list_all_iff)
qed

lemma step_SUM:
  assumes "startsWith (trim (toUpperCase formula)) ''SUM(''"
  shows "evaluateFormula_step accepts rnd toStr columns grid formula
      = Return (Num (spec_SUM rnd (argumentValues columns grid (trim (toUpperCase formula)) 4)))"
proof -
  obtain r where u: "trim (toUpperCase formula) = ''SUM('' @ r"
    using startsWith_append [OF assms] by blast
  show ?thesis
    unfolding evaluateFormula_step_def Let_def u
    by (simp add: startsWith_def sum_loop spec_SUM_def argumentValues_def js_sum_def)
qed

lemma step_AVERAGE:
  assumes "startsWith (trim (toUpperCase formula)) ''AVERAGE(''"
  shows "evaluateFormula_step accepts rnd toStr columns grid formula
      = Return (Num (spec_AVERAGE rnd
          (argumentValues columns grid (trim (toUpperCase formula)) 8)))"
proof -
  obtain r where u: "trim (toUpperCase formula) = ''AVERAGE('' @ r"
    using startsWith_append [OF assms] by blast
  show ?thesis
    unfolding evaluateFormula_step_def Let_def u
    by (simp add: startsWith_def average_loop spec_AVERAGE_def argumentValues_def
        js_sum_def Let_def)
qed

lemma step_COUNT:
  assumes "startsWith (trim (toUpperCase formula)) ''COUNT(''"
  shows "evaluateFormula_step accepts rnd toStr columns grid formula
      = Return (Num (Finite (of_nat (spec_COUNT
          (expandedValues columns grid (trim (toUpperCase formula)) 6)))))"
proof -
  obtain r where u: "trim (toUpperCase formula) = ''COUNT('' @ r"
    using startsWith_append [OF assms] by blast
  show ?thesis
    unfolding evaluateFormula_step_def Let_def u
    by (simp add: startsWith_def count_loop spec_COUNT_def expandedValues_def
        argumentValues_def)
qed

lemma step_MAX:
  assumes "startsWith (trim (toUpperCase formula)) ''MAX(''"
  shows "evaluateFormula_step accepts rnd toStr columns grid formula
      = (if accepted accepts (argumentValues columns grid (trim (toUpperCase formula)) 4)
         then Return (Num (if foldl js_max2 NegInfinity
                                (numericValues (expandedValues columns grid
                                   (trim (toUpperCase formula)) 4)) = NegInfinity
                           then Finite 0
                           else foldl js_max2 NegInfinity
                                (numericValues (expandedValues columns grid
                                   (trim (toUpperCase formula)) 4))))
         else Return ERROR)"
proof -
  obtain r where u: "trim (toUpperCase formula) = ''MAX('' @ r"
    using startsWith_append [OF assms] by blast
  show ?thesis
    unfolding evaluateFormula_step_def Let_def u
    by (simp add: startsWith_def max_loop expandedValues_def argumentValues_def)
qed

lemma step_MIN:
  assumes "startsWith (trim (toUpperCase formula)) ''MIN(''"
  shows "evaluateFormula_step accepts rnd toStr columns grid formula
      = (if accepted accepts (argumentValues columns grid (trim (toUpperCase formula)) 4)
         then Return (Num (if foldl js_min2 Infinity
                                (numericValues (expandedValues columns grid
                                   (trim (toUpperCase formula)) 4)) = Infinity
                           then Finite 0
                           else foldl js_min2 Infinity
                                (numericValues (expandedValues columns grid
                                   (trim (toUpperCase formula)) 4))))
         else Return ERROR)"
proof -
  obtain r where u: "trim (toUpperCase formula) = ''MIN('' @ r"
    using startsWith_append [OF assms] by blast
  show ?thesis
    unfolding evaluateFormula_step_def Let_def u
    by (simp add: startsWith_def min_loop expandedValues_def argumentValues_def)
qed

lemma greatest_not_NaN: "greatest ns m \<Longrightarrow> m \<noteq> NaN"
  by (cases m) (auto simp: greatest_def list_all_iff)

lemma least_not_NaN: "least ns m \<Longrightarrow> m \<noteq> NaN"
  by (cases m) (auto simp: least_def list_all_iff)

lemma greatest_finite: "greatest ns m \<Longrightarrow> list_all isFinite ns \<Longrightarrow> isFinite m"
  by (auto simp: greatest_def list_all_iff)

lemma least_finite: "least ns m \<Longrightarrow> list_all isFinite ns \<Longrightarrow> isFinite m"
  by (auto simp: least_def list_all_iff)

lemma refused_MAX:
  assumes "startsWith (trim (toUpperCase formula)) ''MAX(''"
    and "\<not> accepted accepts (argumentValues columns grid (trim (toUpperCase formula)) 4)"
  shows "evaluateFormula_step accepts rnd toStr columns grid formula = Return ERROR"
  using assms(2) by (simp add: step_MAX [OF assms(1)])

lemma reduce_MAX:
  assumes "startsWith (trim (toUpperCase formula)) ''MAX(''"
    and "accepted accepts (argumentValues columns grid (trim (toUpperCase formula)) 4)"
  shows "(numericValues (expandedValues columns grid (trim (toUpperCase formula)) 4) = []
            \<longrightarrow> evaluateFormula_step accepts rnd toStr columns grid formula
                  = Return (Num (Finite 0)))
       \<and> (numericValues (expandedValues columns grid (trim (toUpperCase formula)) 4) \<noteq> []
            \<longrightarrow> (\<exists>m. greatest (numericValues (expandedValues columns grid
                                     (trim (toUpperCase formula)) 4)) m
                   \<and> evaluateFormula_step accepts rnd toStr columns grid formula
                       = Return (Num (if m = NegInfinity then Finite 0 else m))))"
proof (intro conjI impI)
  let ?ns = "numericValues (expandedValues columns grid (trim (toUpperCase formula)) 4)"
  {
    assume "?ns = []"
    then show "evaluateFormula_step accepts rnd toStr columns grid formula
        = Return (Num (Finite 0))"
      using assms(2) by (simp add: step_MAX [OF assms(1)])
  next
    assume ne: "?ns \<noteq> []"
    let ?m = "foldl js_max2 NegInfinity ?ns"
    have "greatest ?ns ?m"
      using expandedValues_not_NaN ne by (rule greatest_foldl)
    moreover have "evaluateFormula_step accepts rnd toStr columns grid formula
        = Return (Num (if ?m = NegInfinity then Finite 0 else ?m))"
      using assms(2) by (simp add: step_MAX [OF assms(1)])
    ultimately show "\<exists>m. greatest ?ns m
        \<and> evaluateFormula_step accepts rnd toStr columns grid formula
            = Return (Num (if m = NegInfinity then Finite 0 else m))"
      by blast
  }
qed

lemma no_number_accepted:
  "numericValues (concat vss) = [] \<Longrightarrow> accepted accepts vss"
  by (induction vss) (simp_all add: accepted_def numericValues_append)

lemma refused_MIN:
  assumes "startsWith (trim (toUpperCase formula)) ''MIN(''"
    and "\<not> accepted accepts (argumentValues columns grid (trim (toUpperCase formula)) 4)"
  shows "evaluateFormula_step accepts rnd toStr columns grid formula = Return ERROR"
  using assms(2) by (simp add: step_MIN [OF assms(1)])

lemma reduce_MIN:
  assumes "startsWith (trim (toUpperCase formula)) ''MIN(''"
    and "accepted accepts (argumentValues columns grid (trim (toUpperCase formula)) 4)"
  shows "(numericValues (expandedValues columns grid (trim (toUpperCase formula)) 4) = []
            \<longrightarrow> evaluateFormula_step accepts rnd toStr columns grid formula
                  = Return (Num (Finite 0)))
       \<and> (numericValues (expandedValues columns grid (trim (toUpperCase formula)) 4) \<noteq> []
            \<longrightarrow> (\<exists>m. least (numericValues (expandedValues columns grid
                                     (trim (toUpperCase formula)) 4)) m
                   \<and> evaluateFormula_step accepts rnd toStr columns grid formula
                       = Return (Num (if m = Infinity then Finite 0 else m))))"
proof (intro conjI impI)
  let ?ns = "numericValues (expandedValues columns grid (trim (toUpperCase formula)) 4)"
  {
    assume "?ns = []"
    then show "evaluateFormula_step accepts rnd toStr columns grid formula
        = Return (Num (Finite 0))"
      using assms(2) by (simp add: step_MIN [OF assms(1)])
  next
    assume ne: "?ns \<noteq> []"
    let ?m = "foldl js_min2 Infinity ?ns"
    have "least ?ns ?m"
      using expandedValues_not_NaN ne by (rule least_foldl)
    moreover have "evaluateFormula_step accepts rnd toStr columns grid formula
        = Return (Num (if ?m = Infinity then Finite 0 else ?m))"
      using assms(2) by (simp add: step_MIN [OF assms(1)])
    ultimately show "\<exists>m. least ?ns m
        \<and> evaluateFormula_step accepts rnd toStr columns grid formula
            = Return (Num (if m = Infinity then Finite 0 else m))"
      by blast
  }
qed

lemma noRounding_eq: "noRounding = Finite"
  by (simp add: fun_eq_iff noRounding_def)

lemma foldl_exact:
  "list_all isFinite ns \<Longrightarrow>
     foldl (js_add Finite) (Finite a) ns = Finite (a + sum_list (map finiteValue ns))"
proof (induction ns arbitrary: a)
  case Nil
  then show ?case by simp
next
  case (Cons n ns)
  then obtain b where b: "n = Finite b" by (cases n) (simp_all add: isFinite_def)
  with Cons show ?case by (simp add: finiteValue_def add.assoc)
qed

lemma js_sum_exact:
  "list_all isFinite ns \<Longrightarrow> js_sum Finite ns = Finite (sum_list (map finiteValue ns))"
  by (simp add: js_sum_def foldl_exact)

lemma numberOrZero_numericValues:
  "list_all isFinite (numericValues vs) \<Longrightarrow>
     list_all isFinite (map numberOrZero vs)
     \<and> sum_list (map finiteValue (map numberOrZero vs))
         = sum_list (map finiteValue (numericValues vs))"
  by (induction vs rule: numericValues.induct)
     (simp_all add: numberOrZero_def isFinite_def finiteValue_def)

lemma exact_SUM:
  "list_all isFinite (numericValues (concat vss)) \<Longrightarrow>
     spec_SUM noRounding vss = Finite (sum_list (map finiteValue (numericValues (concat vss))))"
proof -
  assume fin: "list_all isFinite (numericValues (concat vss))"
  have "foldl (js_add Finite) (Finite a)
          (map (\<lambda>vs. js_sum Finite (map numberOrZero vs)) vss)
        = Finite (a + sum_list (map finiteValue (numericValues (concat vss))))" for a
    using fin
  proof (induction vss arbitrary: a)
    case Nil
    then show ?case by simp
  next
    case (Cons vs vss)
    then have f: "list_all isFinite (numericValues vs)"
        "list_all isFinite (numericValues (concat vss))"
      by (simp_all add: numericValues_append)
    have "js_sum Finite (map numberOrZero vs)
        = Finite (sum_list (map finiteValue (numericValues vs)))"
      using numberOrZero_numericValues [OF f(1)] by (simp add: js_sum_exact)
    then show ?case
      using Cons.IH [OF f(2), of "a + sum_list (map finiteValue (numericValues vs))"]
      by (simp add: numericValues_append add.assoc)
  qed
  from this [of 0] show ?thesis by (simp add: spec_SUM_def js_sum_def noRounding_eq)
qed

lemma exact_AVERAGE:
  "list_all isFinite (numericValues (concat vss)) \<Longrightarrow>
     spec_AVERAGE noRounding vss =
       Finite (if numericValues (concat vss) = [] then 0
               else sum_list (map finiteValue (numericValues (concat vss)))
                    / of_nat (length (numericValues (concat vss))))"
proof -
  assume fin: "list_all isFinite (numericValues (concat vss))"
  have "foldl (js_add Finite) (Finite a)
          (map (\<lambda>vs. js_sum Finite (numericValues vs)) vss)
        = Finite (a + sum_list (map finiteValue (numericValues (concat vss))))" for a
    using fin
  proof (induction vss arbitrary: a)
    case Nil
    then show ?case by simp
  next
    case (Cons vs vss)
    then have f: "list_all isFinite (numericValues vs)"
        "list_all isFinite (numericValues (concat vss))"
      by (simp_all add: numericValues_append)
    show ?case
      using Cons.IH [OF f(2), of "a + sum_list (map finiteValue (numericValues vs))"] f(1)
      by (simp add: numericValues_append add.assoc js_sum_exact)
  qed
  from this [of 0] show ?thesis
    by (simp add: spec_AVERAGE_def js_sum_def Let_def js_div_count_def noRounding_eq)
qed

text \<open>
  The total follows the rounding. Where the sum of 9007199254740992, which is 2 to the power
  53, and 1 rounds to 9007199254740992, as it does for doubles, \<^verbatim>\<open>SUM\<close> of the two cells is
  9007199254740992.
\<close>

lemma sum_is_rounded:
  assumes "rnd 9007199254740992 = Finite 9007199254740992"
    and "rnd 9007199254740993 = Finite 9007199254740992"
  shows "evaluateFormula_step accepts rnd toStr [\<lparr>name = ''Product'', key = ''p''\<rparr>]
       [[\<lparr>cell_value = Num (Finite 9007199254740992), cell_format = None,
          cell_formula = None\<rparr>],
        [\<lparr>cell_value = Num (Finite 1), cell_format = None, cell_formula = None\<rparr>]]
       ''SUM(A2:A3)'' = Return (Num (Finite 9007199254740992))"
proof -
  have cells: "argumentValues [\<lparr>name = ''Product'', key = ''p''\<rparr>]
       [[\<lparr>cell_value = Num (Finite 9007199254740992), cell_format = None,
          cell_formula = None\<rparr>],
        [\<lparr>cell_value = Num (Finite 1), cell_format = None, cell_formula = None\<rparr>]]
       (trim (toUpperCase ''SUM(A2:A3)'')) 4
     = [[Num (Finite 9007199254740992), Num (Finite 1)]]"
    by code_simp
  have prefix: "startsWith (trim (toUpperCase ''SUM(A2:A3)'')) ''SUM(''"
    by code_simp
  show ?thesis
    unfolding step_SUM [OF prefix] cells
    by (simp add: spec_SUM_def js_sum_def numberOrZero_def assms)
qed

text \<open>
  Claim C8, as the code has it. With the values that the arguments of an aggregate expand
  to: \<^verbatim>\<open>SUM\<close> returns the total of the totals of its arguments, accumulated from the left in
  the arithmetic of the numbers, a value that is no number counting as 0; \<^verbatim>\<open>AVERAGE\<close> the
  total of the numeric values, accumulated likewise, over their count, and 0 when there is
  none; when the arithmetic is exact and the numeric values are finite, these are the sum of
  the numeric values and that sum over the count. \<^verbatim>\<open>COUNT\<close> returns the count of the numeric
  values. \<^verbatim>\<open>MAX\<close> returns 0 when no numeric value is present, an empty range included;
  otherwise, when the engine accepts its calls of \<^verbatim>\<open>Math.max\<close>, it returns the greatest
  numeric value, but 0 when that is \<^verbatim>\<open>-Infinity\<close>, and a finite number when the numeric
  values are finite; when the engine refuses a call it returns \<^verbatim>\<open>#ERROR!\<close>. It never returns
  \<^verbatim>\<open>-Infinity\<close> or \<^verbatim>\<open>NaN\<close>. \<^verbatim>\<open>MIN\<close> is the same with the least numeric value and
  \<^verbatim>\<open>Infinity\<close>. The arithmetic is any rounding.
\<close>

theorem aggregates_reduce:
  "(startsWith (trim (toUpperCase formula)) ''SUM('' \<longrightarrow>
      evaluateFormula accepts rnd toStr js_eval columns grid formula
        = Num (spec_SUM rnd (argumentValues columns grid (trim (toUpperCase formula)) 4))
      \<and> (list_all isFinite
            (numericValues (expandedValues columns grid (trim (toUpperCase formula)) 4)) \<longrightarrow>
          evaluateFormula accepts noRounding toStr js_eval columns grid formula
            = Num (Finite (sum_list (map finiteValue
                (numericValues (expandedValues columns grid (trim (toUpperCase formula)) 4)))))))
   \<and> (startsWith (trim (toUpperCase formula)) ''AVERAGE('' \<longrightarrow>
      evaluateFormula accepts rnd toStr js_eval columns grid formula
        = Num (spec_AVERAGE rnd (argumentValues columns grid (trim (toUpperCase formula)) 8))
      \<and> (numericValues (expandedValues columns grid (trim (toUpperCase formula)) 8) = [] \<longrightarrow>
          evaluateFormula accepts rnd toStr js_eval columns grid formula = Num (Finite 0))
      \<and> (list_all isFinite
            (numericValues (expandedValues columns grid (trim (toUpperCase formula)) 8))
          \<and> numericValues (expandedValues columns grid (trim (toUpperCase formula)) 8) \<noteq> [] \<longrightarrow>
          evaluateFormula accepts noRounding toStr js_eval columns grid formula
            = Num (Finite (sum_list (map finiteValue
                (numericValues (expandedValues columns grid (trim (toUpperCase formula)) 8)))
                / of_nat (length
                    (numericValues (expandedValues columns grid
                       (trim (toUpperCase formula)) 8)))))))
   \<and> (startsWith (trim (toUpperCase formula)) ''COUNT('' \<longrightarrow>
      evaluateFormula accepts rnd toStr js_eval columns grid formula
        = Num (Finite (of_nat (spec_COUNT
            (expandedValues columns grid (trim (toUpperCase formula)) 6)))))
   \<and> (startsWith (trim (toUpperCase formula)) ''MAX('' \<longrightarrow>
      (numericValues (expandedValues columns grid (trim (toUpperCase formula)) 4) = [] \<longrightarrow>
         evaluateFormula accepts rnd toStr js_eval columns grid formula = Num (Finite 0))
      \<and> (accepted accepts (argumentValues columns grid (trim (toUpperCase formula)) 4)
           \<and> numericValues (expandedValues columns grid (trim (toUpperCase formula)) 4) \<noteq> [] \<longrightarrow>
         (\<exists>m. greatest (numericValues (expandedValues columns grid (trim (toUpperCase formula)) 4)) m
              \<and> evaluateFormula accepts rnd toStr js_eval columns grid formula
                  = Num (if m = NegInfinity then Finite 0 else m)))
      \<and> (accepted accepts (argumentValues columns grid (trim (toUpperCase formula)) 4)
           \<and> list_all isFinite (numericValues (expandedValues columns grid (trim (toUpperCase formula)) 4)) \<longrightarrow>
         (\<exists>r. evaluateFormula accepts rnd toStr js_eval columns grid formula = Num (Finite r)))
      \<and> (\<not> accepted accepts (argumentValues columns grid (trim (toUpperCase formula)) 4) \<longrightarrow>
         evaluateFormula accepts rnd toStr js_eval columns grid formula = ERROR)
      \<and> evaluateFormula accepts rnd toStr js_eval columns grid formula \<noteq> Num NegInfinity
      \<and> evaluateFormula accepts rnd toStr js_eval columns grid formula \<noteq> Num NaN)
   \<and> (startsWith (trim (toUpperCase formula)) ''MIN('' \<longrightarrow>
      (numericValues (expandedValues columns grid (trim (toUpperCase formula)) 4) = [] \<longrightarrow>
         evaluateFormula accepts rnd toStr js_eval columns grid formula = Num (Finite 0))
      \<and> (accepted accepts (argumentValues columns grid (trim (toUpperCase formula)) 4)
           \<and> numericValues (expandedValues columns grid (trim (toUpperCase formula)) 4) \<noteq> [] \<longrightarrow>
         (\<exists>m. least (numericValues (expandedValues columns grid (trim (toUpperCase formula)) 4)) m
              \<and> evaluateFormula accepts rnd toStr js_eval columns grid formula
                  = Num (if m = Infinity then Finite 0 else m)))
      \<and> (accepted accepts (argumentValues columns grid (trim (toUpperCase formula)) 4)
           \<and> list_all isFinite (numericValues (expandedValues columns grid (trim (toUpperCase formula)) 4)) \<longrightarrow>
         (\<exists>r. evaluateFormula accepts rnd toStr js_eval columns grid formula = Num (Finite r)))
      \<and> (\<not> accepted accepts (argumentValues columns grid (trim (toUpperCase formula)) 4) \<longrightarrow>
         evaluateFormula accepts rnd toStr js_eval columns grid formula = ERROR)
      \<and> evaluateFormula accepts rnd toStr js_eval columns grid formula \<noteq> Num Infinity
      \<and> evaluateFormula accepts rnd toStr js_eval columns grid formula \<noteq> Num NaN)"
proof (intro conjI impI)
  let ?u = "trim (toUpperCase formula)"
  have ev: "evaluateFormula accepts r toStr js_eval columns grid formula = v"
    if "evaluateFormula_step accepts r toStr columns grid formula = Return v" for r v
    using that by (simp add: evaluateFormula_def)
  {
    assume p: "startsWith ?u ''SUM(''"
    show "evaluateFormula accepts rnd toStr js_eval columns grid formula
        = Num (spec_SUM rnd (argumentValues columns grid ?u 4))"
      by (rule ev) (rule step_SUM [OF p])
    assume "list_all isFinite (numericValues (expandedValues columns grid ?u 4))"
    then show "evaluateFormula accepts noRounding toStr js_eval columns grid formula
        = Num (Finite (sum_list (map finiteValue
            (numericValues (expandedValues columns grid ?u 4)))))"
      using ev [OF step_SUM [OF p], of noRounding]
      by (simp add: exact_SUM expandedValues_def)
  }
  {
    assume p: "startsWith ?u ''AVERAGE(''"
    show "evaluateFormula accepts rnd toStr js_eval columns grid formula
        = Num (spec_AVERAGE rnd (argumentValues columns grid ?u 8))"
      by (rule ev) (rule step_AVERAGE [OF p])
    {
      assume "numericValues (expandedValues columns grid ?u 8) = []"
      then show "evaluateFormula accepts rnd toStr js_eval columns grid formula = Num (Finite 0)"
        using ev [OF step_AVERAGE [OF p], of rnd]
        by (simp add: spec_AVERAGE_def expandedValues_def Let_def)
    }
    assume "list_all isFinite (numericValues (expandedValues columns grid ?u 8))
        \<and> numericValues (expandedValues columns grid ?u 8) \<noteq> []"
    then show "evaluateFormula accepts noRounding toStr js_eval columns grid formula
        = Num (Finite (sum_list (map finiteValue
            (numericValues (expandedValues columns grid ?u 8)))
            / of_nat (length (numericValues (expandedValues columns grid ?u 8)))))"
      using ev [OF step_AVERAGE [OF p], of noRounding]
      by (simp add: exact_AVERAGE expandedValues_def)
  }
  {
    assume p: "startsWith ?u ''COUNT(''"
    show "evaluateFormula accepts rnd toStr js_eval columns grid formula
        = Num (Finite (of_nat (spec_COUNT (expandedValues columns grid ?u 6))))"
      by (rule ev) (rule step_COUNT [OF p])
  }
  {
    assume p: "startsWith ?u ''MAX(''"
    let ?ns = "numericValues (expandedValues columns grid ?u 4)"
    let ?vss = "argumentValues columns grid ?u 4"
    let ?r = "evaluateFormula accepts rnd toStr js_eval columns grid formula"
    have zero: "?r = Num (Finite 0)" if "?ns = []"
    proof -
      from that have "accepted accepts ?vss"
        unfolding expandedValues_def by (rule no_number_accepted)
      from reduce_MAX [OF p this, of rnd toStr] that show ?thesis
        using ev by blast
    qed
    have some: "\<exists>m. greatest ?ns m \<and> ?r = Num (if m = NegInfinity then Finite 0 else m)"
      if "accepted accepts ?vss" and "?ns \<noteq> []"
    proof -
      from reduce_MAX [OF p that(1), of rnd toStr] that(2) obtain m where "greatest ?ns m"
          "evaluateFormula_step accepts rnd toStr columns grid formula
             = Return (Num (if m = NegInfinity then Finite 0 else m))"
        by blast
      with ev show ?thesis by blast
    qed
    have refused: "?r = ERROR" if "\<not> accepted accepts ?vss"
      using refused_MAX [OF p that, of rnd toStr] by (rule ev)
    {
      assume "?ns = []"
      then show "?r = Num (Finite 0)"
        by (rule zero)
    }
    {
      assume "accepted accepts ?vss \<and> ?ns \<noteq> []"
      then show "\<exists>m. greatest ?ns m \<and> ?r = Num (if m = NegInfinity then Finite 0 else m)"
        using some by blast
    }
    {
      assume h: "accepted accepts ?vss \<and> list_all isFinite ?ns"
      show "\<exists>r. ?r = Num (Finite r)"
      proof (cases "?ns = []")
        case True
        then show ?thesis using zero by simp
      next
        case False
        with h obtain m where m: "greatest ?ns m"
            "?r = Num (if m = NegInfinity then Finite 0 else m)"
          using some by blast
        from h greatest_finite [OF m(1)] obtain a where "m = Finite a"
          by (cases m) (simp_all add: isFinite_def)
        with m(2) show ?thesis by simp
      qed
    }
    {
      assume "\<not> accepted accepts ?vss"
      then show "?r = ERROR"
        by (rule refused)
    }
    show "?r \<noteq> Num NegInfinity"
    proof (cases "accepted accepts ?vss")
      case True
      with zero some show ?thesis
        by (cases "?ns = []") (auto split: if_splits)
    next
      case False
      with refused show ?thesis by (simp add: ERROR_def)
    qed
    show "?r \<noteq> Num NaN"
    proof (cases "accepted accepts ?vss")
      case True
      with zero some greatest_not_NaN show ?thesis
        by (cases "?ns = []") (auto split: if_splits)
    next
      case False
      with refused show ?thesis by (simp add: ERROR_def)
    qed
  }
  {
    assume p: "startsWith ?u ''MIN(''"
    let ?ns = "numericValues (expandedValues columns grid ?u 4)"
    let ?vss = "argumentValues columns grid ?u 4"
    let ?r = "evaluateFormula accepts rnd toStr js_eval columns grid formula"
    have zero: "?r = Num (Finite 0)" if "?ns = []"
    proof -
      from that have "accepted accepts ?vss"
        unfolding expandedValues_def by (rule no_number_accepted)
      from reduce_MIN [OF p this, of rnd toStr] that show ?thesis
        using ev by blast
    qed
    have some: "\<exists>m. least ?ns m \<and> ?r = Num (if m = Infinity then Finite 0 else m)"
      if "accepted accepts ?vss" and "?ns \<noteq> []"
    proof -
      from reduce_MIN [OF p that(1), of rnd toStr] that(2) obtain m where "least ?ns m"
          "evaluateFormula_step accepts rnd toStr columns grid formula
             = Return (Num (if m = Infinity then Finite 0 else m))"
        by blast
      with ev show ?thesis by blast
    qed
    have refused: "?r = ERROR" if "\<not> accepted accepts ?vss"
      using refused_MIN [OF p that, of rnd toStr] by (rule ev)
    {
      assume "?ns = []"
      then show "?r = Num (Finite 0)"
        by (rule zero)
    }
    {
      assume "accepted accepts ?vss \<and> ?ns \<noteq> []"
      then show "\<exists>m. least ?ns m \<and> ?r = Num (if m = Infinity then Finite 0 else m)"
        using some by blast
    }
    {
      assume h: "accepted accepts ?vss \<and> list_all isFinite ?ns"
      show "\<exists>r. ?r = Num (Finite r)"
      proof (cases "?ns = []")
        case True
        then show ?thesis using zero by simp
      next
        case False
        with h obtain m where m: "least ?ns m"
            "?r = Num (if m = Infinity then Finite 0 else m)"
          using some by blast
        from h least_finite [OF m(1)] obtain a where "m = Finite a"
          by (cases m) (simp_all add: isFinite_def)
        with m(2) show ?thesis by simp
      qed
    }
    {
      assume "\<not> accepted accepts ?vss"
      then show "?r = ERROR"
        by (rule refused)
    }
    show "?r \<noteq> Num Infinity"
    proof (cases "accepted accepts ?vss")
      case True
      with zero some show ?thesis
        by (cases "?ns = []") (auto split: if_splits)
    next
      case False
      with refused show ?thesis by (simp add: ERROR_def)
    qed
    show "?r \<noteq> Num NaN"
    proof (cases "accepted accepts ?vss")
      case True
      with zero some least_not_NaN show ?thesis
        by (cases "?ns = []") (auto split: if_splits)
    next
      case False
      with refused show ?thesis by (simp add: ERROR_def)
    qed
  }
qed

theorem aggregates_reduce_witness:
  "startsWith (trim (toUpperCase ''sum(a2:a4)'')) ''SUM(''
   \<and> list_all isFinite (numericValues (expandedValues [\<lparr>name = ''2020'', key = ''2020''\<rparr>]
        (initialGrid [\<lparr>name = ''2020'', key = ''2020''\<rparr>]
           [[''2020'' \<mapsto> Num (Finite 10)], [''2020'' \<mapsto> Num (Finite 20)],
            [''2020'' \<mapsto> Num (Finite 30)]])
        (trim (toUpperCase ''sum(a2:a4)'')) 4))
   \<and> evaluateFormula (argumentLimit 65536) noRounding numberToString Map.empty [\<lparr>name = ''2020'', key = ''2020''\<rparr>]
        (initialGrid [\<lparr>name = ''2020'', key = ''2020''\<rparr>]
           [[''2020'' \<mapsto> Num (Finite 10)], [''2020'' \<mapsto> Num (Finite 20)],
            [''2020'' \<mapsto> Num (Finite 30)]])
        ''sum(a2:a4)'' = Num (Finite 60)
   \<and> startsWith (trim (toUpperCase ''average(a2:a4)'')) ''AVERAGE(''
   \<and> evaluateFormula (argumentLimit 65536) noRounding numberToString Map.empty [\<lparr>name = ''2020'', key = ''2020''\<rparr>]
        (initialGrid [\<lparr>name = ''2020'', key = ''2020''\<rparr>]
           [[''2020'' \<mapsto> Num (Finite 10)], [''2020'' \<mapsto> Num (Finite 20)],
            [''2020'' \<mapsto> Num (Finite 30)]])
        ''average(a2:a4)'' = Num (Finite 20)
   \<and> startsWith (trim (toUpperCase ''average(a1)'')) ''AVERAGE(''
   \<and> numericValues (expandedValues [\<lparr>name = ''2020'', key = ''2020''\<rparr>]
        (initialGrid [\<lparr>name = ''2020'', key = ''2020''\<rparr>]
           [[''2020'' \<mapsto> Num (Finite 10)], [''2020'' \<mapsto> Num (Finite 20)],
            [''2020'' \<mapsto> Num (Finite 30)]])
        (trim (toUpperCase ''average(a1)'')) 8) = []
   \<and> evaluateFormula (argumentLimit 65536) noRounding numberToString Map.empty [\<lparr>name = ''2020'', key = ''2020''\<rparr>]
        (initialGrid [\<lparr>name = ''2020'', key = ''2020''\<rparr>]
           [[''2020'' \<mapsto> Num (Finite 10)], [''2020'' \<mapsto> Num (Finite 20)],
            [''2020'' \<mapsto> Num (Finite 30)]])
        ''average(a1)'' = Num (Finite 0)
   \<and> startsWith (trim (toUpperCase ''count(a1:a4)'')) ''COUNT(''
   \<and> evaluateFormula (argumentLimit 65536) noRounding numberToString Map.empty [\<lparr>name = ''2020'', key = ''2020''\<rparr>]
        (initialGrid [\<lparr>name = ''2020'', key = ''2020''\<rparr>]
           [[''2020'' \<mapsto> Num (Finite 10)], [''2020'' \<mapsto> Num (Finite 20)],
            [''2020'' \<mapsto> Num (Finite 30)]])
        ''count(a1:a4)'' = Num (Finite 3)
   \<and> startsWith (trim (toUpperCase ''max(a2:a4)'')) ''MAX(''
   \<and> accepted (argumentLimit 65536) (argumentValues [\<lparr>name = ''2020'', key = ''2020''\<rparr>]
        (initialGrid [\<lparr>name = ''2020'', key = ''2020''\<rparr>]
           [[''2020'' \<mapsto> Num (Finite 10)], [''2020'' \<mapsto> Num (Finite 20)],
            [''2020'' \<mapsto> Num (Finite 30)]])
        (trim (toUpperCase ''max(a2:a4)'')) 4)
   \<and> greatest (numericValues (expandedValues [\<lparr>name = ''2020'', key = ''2020''\<rparr>]
        (initialGrid [\<lparr>name = ''2020'', key = ''2020''\<rparr>]
           [[''2020'' \<mapsto> Num (Finite 10)], [''2020'' \<mapsto> Num (Finite 20)],
            [''2020'' \<mapsto> Num (Finite 30)]])
        (trim (toUpperCase ''max(a2:a4)'')) 4)) (Finite 30)
   \<and> evaluateFormula (argumentLimit 65536) noRounding numberToString Map.empty [\<lparr>name = ''2020'', key = ''2020''\<rparr>]
        (initialGrid [\<lparr>name = ''2020'', key = ''2020''\<rparr>]
           [[''2020'' \<mapsto> Num (Finite 10)], [''2020'' \<mapsto> Num (Finite 20)],
            [''2020'' \<mapsto> Num (Finite 30)]])
        ''max(a2:a4)'' = Num (Finite 30)
   \<and> startsWith (trim (toUpperCase ''min(a2:a4)'')) ''MIN(''
   \<and> accepted (argumentLimit 65536) (argumentValues [\<lparr>name = ''2020'', key = ''2020''\<rparr>]
        (initialGrid [\<lparr>name = ''2020'', key = ''2020''\<rparr>]
           [[''2020'' \<mapsto> Num (Finite 10)], [''2020'' \<mapsto> Num (Finite 20)],
            [''2020'' \<mapsto> Num (Finite 30)]])
        (trim (toUpperCase ''min(a2:a4)'')) 4)
   \<and> least (numericValues (expandedValues [\<lparr>name = ''2020'', key = ''2020''\<rparr>]
        (initialGrid [\<lparr>name = ''2020'', key = ''2020''\<rparr>]
           [[''2020'' \<mapsto> Num (Finite 10)], [''2020'' \<mapsto> Num (Finite 20)],
            [''2020'' \<mapsto> Num (Finite 30)]])
        (trim (toUpperCase ''min(a2:a4)'')) 4)) (Finite 10)
   \<and> evaluateFormula (argumentLimit 65536) noRounding numberToString Map.empty [\<lparr>name = ''2020'', key = ''2020''\<rparr>]
        (initialGrid [\<lparr>name = ''2020'', key = ''2020''\<rparr>]
           [[''2020'' \<mapsto> Num (Finite 10)], [''2020'' \<mapsto> Num (Finite 20)],
            [''2020'' \<mapsto> Num (Finite 30)]])
        ''min(a2:a4)'' = Num (Finite 10)
   \<and> startsWith (trim (toUpperCase ''max(a1:)'')) ''MAX(''
   \<and> numericValues (expandedValues [\<lparr>name = ''2020'', key = ''2020''\<rparr>]
        (initialGrid [\<lparr>name = ''2020'', key = ''2020''\<rparr>]
           [[''2020'' \<mapsto> Num (Finite 10)], [''2020'' \<mapsto> Num (Finite 20)],
            [''2020'' \<mapsto> Num (Finite 30)]])
        (trim (toUpperCase ''max(a1:)'')) 4) = []
   \<and> evaluateFormula (argumentLimit 65536) noRounding numberToString Map.empty [\<lparr>name = ''2020'', key = ''2020''\<rparr>]
        (initialGrid [\<lparr>name = ''2020'', key = ''2020''\<rparr>]
           [[''2020'' \<mapsto> Num (Finite 10)], [''2020'' \<mapsto> Num (Finite 20)],
            [''2020'' \<mapsto> Num (Finite 30)]])
        ''max(a1:)'' = Num (Finite 0)
   \<and> startsWith (trim (toUpperCase ''min(a1)'')) ''MIN(''
   \<and> numericValues (expandedValues [\<lparr>name = ''2020'', key = ''2020''\<rparr>]
        (initialGrid [\<lparr>name = ''2020'', key = ''2020''\<rparr>]
           [[''2020'' \<mapsto> Num (Finite 10)], [''2020'' \<mapsto> Num (Finite 20)],
            [''2020'' \<mapsto> Num (Finite 30)]])
        (trim (toUpperCase ''min(a1)'')) 4) = []
   \<and> evaluateFormula (argumentLimit 65536) noRounding numberToString Map.empty [\<lparr>name = ''2020'', key = ''2020''\<rparr>]
        (initialGrid [\<lparr>name = ''2020'', key = ''2020''\<rparr>]
           [[''2020'' \<mapsto> Num (Finite 10)], [''2020'' \<mapsto> Num (Finite 20)],
            [''2020'' \<mapsto> Num (Finite 30)]])
        ''min(a1)'' = Num (Finite 0)
   \<and> \<not> accepted (argumentLimit 3) (argumentValues [\<lparr>name = ''2020'', key = ''2020''\<rparr>]
        (initialGrid [\<lparr>name = ''2020'', key = ''2020''\<rparr>]
           [[''2020'' \<mapsto> Num (Finite 10)], [''2020'' \<mapsto> Num (Finite 20)],
            [''2020'' \<mapsto> Num (Finite 30)]])
        (trim (toUpperCase ''max(a2:a4)'')) 4)
   \<and> evaluateFormula (argumentLimit 3) noRounding numberToString Map.empty [\<lparr>name = ''2020'', key = ''2020''\<rparr>]
        (initialGrid [\<lparr>name = ''2020'', key = ''2020''\<rparr>]
           [[''2020'' \<mapsto> Num (Finite 10)], [''2020'' \<mapsto> Num (Finite 20)],
            [''2020'' \<mapsto> Num (Finite 30)]])
        ''max(a2:a4)'' = ERROR"
proof -
  let ?cols = "[\<lparr>name = ''2020'', key = ''2020''\<rparr>]"
  let ?grid = "initialGrid ?cols
      [[''2020'' \<mapsto> Num (Finite 10)], [''2020'' \<mapsto> Num (Finite 20)],
       [''2020'' \<mapsto> Num (Finite 30)]]"
  let ?ns = "\<lambda>formula k.
      numericValues (expandedValues ?cols ?grid (trim (toUpperCase formula)) k)"
  let ?vss = "\<lambda>formula k. argumentValues ?cols ?grid (trim (toUpperCase formula)) k"
  let ?ev = "evaluateFormula (argumentLimit 65536) noRounding numberToString Map.empty
      ?cols ?grid"
  have prefixes:
    "startsWith (trim (toUpperCase ''sum(a2:a4)'')) ''SUM(''"
    "startsWith (trim (toUpperCase ''average(a2:a4)'')) ''AVERAGE(''"
    "startsWith (trim (toUpperCase ''average(a1)'')) ''AVERAGE(''"
    "startsWith (trim (toUpperCase ''count(a1:a4)'')) ''COUNT(''"
    "startsWith (trim (toUpperCase ''max(a2:a4)'')) ''MAX(''"
    "startsWith (trim (toUpperCase ''min(a2:a4)'')) ''MIN(''"
    "startsWith (trim (toUpperCase ''max(a1:)'')) ''MAX(''"
    "startsWith (trim (toUpperCase ''min(a1)'')) ''MIN(''"
    by code_simp+
  have numbers:
    "?ns ''sum(a2:a4)'' 4 = [Finite 10, Finite 20, Finite 30]"
    "?ns ''average(a2:a4)'' 8 = [Finite 10, Finite 20, Finite 30]"
    "?ns ''average(a1)'' 8 = []"
    "?ns ''max(a2:a4)'' 4 = [Finite 10, Finite 20, Finite 30]"
    "?ns ''min(a2:a4)'' 4 = [Finite 10, Finite 20, Finite 30]"
    "?ns ''max(a1:)'' 4 = []"
    "?ns ''min(a1)'' 4 = []"
    by code_simp+
  have calls:
    "accepted (argumentLimit 65536) (?vss ''max(a2:a4)'' 4)"
    "accepted (argumentLimit 65536) (?vss ''min(a2:a4)'' 4)"
    "\<not> accepted (argumentLimit 3) (?vss ''max(a2:a4)'' 4)"
    by code_simp+
  have count:
    "spec_COUNT (expandedValues ?cols ?grid (trim (toUpperCase ''count(a1:a4)'')) 6) = 3"
    by code_simp
  have finite: "list_all isFinite [Finite 10, Finite 20, Finite 30]"
    by (simp add: isFinite_def)
  have total: "sum_list (map finiteValue [Finite 10, Finite 20, Finite 30]) = 60"
    by (simp add: finiteValue_def)
  have top: "greatest [Finite 10, Finite 20, Finite 30] m \<longleftrightarrow> m = Finite 30" for m
    by (cases m) (auto simp: greatest_def)
  have bottom: "least [Finite 10, Finite 20, Finite 30] m \<longleftrightarrow> m = Finite 10" for m
    by (cases m) (auto simp: least_def)
  have finite_sum: "list_all isFinite (?ns ''sum(a2:a4)'' 4)"
    unfolding numbers by (rule finite)
  with prefixes(1)
  have "?ev ''sum(a2:a4)''
      = Num (Finite (sum_list (map finiteValue (?ns ''sum(a2:a4)'' 4))))"
    using aggregates_reduce [where formula = "''sum(a2:a4)''" and rnd = noRounding
        and accepts = "argumentLimit 65536" and toStr = numberToString and js_eval = Map.empty
        and columns = ?cols and grid = ?grid]
    by blast
  then have sum: "?ev ''sum(a2:a4)'' = Num (Finite 60)"
    unfolding numbers total .
  have "list_all isFinite (?ns ''average(a2:a4)'' 8) \<and> ?ns ''average(a2:a4)'' 8 \<noteq> []"
    unfolding numbers using finite by simp
  with prefixes(2)
  have "?ev ''average(a2:a4)''
      = Num (Finite (sum_list (map finiteValue (?ns ''average(a2:a4)'' 8))
                     / of_nat (length (?ns ''average(a2:a4)'' 8))))"
    using aggregates_reduce [where formula = "''average(a2:a4)''" and rnd = noRounding
        and accepts = "argumentLimit 65536" and toStr = numberToString and js_eval = Map.empty
        and columns = ?cols and grid = ?grid]
    by blast
  then have average: "?ev ''average(a2:a4)'' = Num (Finite 20)"
    unfolding numbers total by simp
  from prefixes(3) numbers(3)
  have average0: "?ev ''average(a1)'' = Num (Finite 0)"
    using aggregates_reduce [where formula = "''average(a1)''" and rnd = noRounding
        and accepts = "argumentLimit 65536" and toStr = numberToString and js_eval = Map.empty
        and columns = ?cols and grid = ?grid]
    by blast
  from prefixes(4)
  have "?ev ''count(a1:a4)'' = Num (Finite (of_nat (spec_COUNT
      (expandedValues ?cols ?grid (trim (toUpperCase ''count(a1:a4)'')) 6))))"
    using aggregates_reduce [where formula = "''count(a1:a4)''" and rnd = noRounding
        and accepts = "argumentLimit 65536" and toStr = numberToString and js_eval = Map.empty
        and columns = ?cols and grid = ?grid]
    by blast
  then have counted: "?ev ''count(a1:a4)'' = Num (Finite 3)"
    unfolding count by simp
  have "?ns ''max(a2:a4)'' 4 \<noteq> []"
    unfolding numbers by simp
  with prefixes(5) calls(1)
  have "\<exists>m. greatest (?ns ''max(a2:a4)'' 4) m
      \<and> ?ev ''max(a2:a4)'' = Num (if m = NegInfinity then Finite 0 else m)"
    using aggregates_reduce [where formula = "''max(a2:a4)''" and rnd = noRounding
        and accepts = "argumentLimit 65536" and toStr = numberToString and js_eval = Map.empty
        and columns = ?cols and grid = ?grid]
    by blast
  then have maximum: "?ev ''max(a2:a4)'' = Num (Finite 30)"
    unfolding numbers top by simp
  have "?ns ''min(a2:a4)'' 4 \<noteq> []"
    unfolding numbers by simp
  with prefixes(6) calls(2)
  have "\<exists>m. least (?ns ''min(a2:a4)'' 4) m
      \<and> ?ev ''min(a2:a4)'' = Num (if m = Infinity then Finite 0 else m)"
    using aggregates_reduce [where formula = "''min(a2:a4)''" and rnd = noRounding
        and accepts = "argumentLimit 65536" and toStr = numberToString and js_eval = Map.empty
        and columns = ?cols and grid = ?grid]
    by blast
  then have minimum: "?ev ''min(a2:a4)'' = Num (Finite 10)"
    unfolding numbers bottom by simp
  from prefixes(7) numbers(6)
  have maximum0: "?ev ''max(a1:)'' = Num (Finite 0)"
    using aggregates_reduce [where formula = "''max(a1:)''" and rnd = noRounding
        and accepts = "argumentLimit 65536" and toStr = numberToString and js_eval = Map.empty
        and columns = ?cols and grid = ?grid]
    by blast
  from prefixes(8) numbers(7)
  have minimum0: "?ev ''min(a1)'' = Num (Finite 0)"
    using aggregates_reduce [where formula = "''min(a1)''" and rnd = noRounding
        and accepts = "argumentLimit 65536" and toStr = numberToString and js_eval = Map.empty
        and columns = ?cols and grid = ?grid]
    by blast
  from prefixes(5) calls(3)
  have refused: "evaluateFormula (argumentLimit 3) noRounding numberToString Map.empty
      ?cols ?grid ''max(a2:a4)'' = ERROR"
    using aggregates_reduce [where formula = "''max(a2:a4)''" and rnd = noRounding
        and accepts = "argumentLimit 3" and toStr = numberToString and js_eval = Map.empty
        and columns = ?cols and grid = ?grid]
    by blast
  have greatest30: "greatest (?ns ''max(a2:a4)'' 4) (Finite 30)"
    unfolding numbers top by simp
  have least10: "least (?ns ''min(a2:a4)'' 4) (Finite 10)"
    unfolding numbers bottom by simp
  show ?thesis
    by (intro conjI prefixes sum average average0 counted maximum minimum maximum0 minimum0
        numbers greatest30 least10 finite_sum calls refused)
qed

text \<open>
  Claim C8 as stated fails on a cell that holds an infinite number. The formula \<^verbatim>\<open>=1/0\<close>
  is handed to \<^verbatim>\<open>eval\<close> as \<^verbatim>\<open>1/0\<close>, whose value \<^verbatim>\<open>Infinity\<close> becomes the value of the cell,
  and \<^verbatim>\<open>=-1/0\<close> likewise gives \<^verbatim>\<open>-Infinity\<close>. With these two cells in A2 and A3,
  \<^verbatim>\<open>MAX(A2)\<close> returns \<^verbatim>\<open>Infinity\<close> and \<^verbatim>\<open>MIN(A3)\<close> returns \<^verbatim>\<open>-Infinity\<close> to the caller; and
  \<^verbatim>\<open>MAX(A3)\<close> returns the sentinel 0 although a numeric value is present and 0 is not the
  greatest of the numeric values.
\<close>

theorem aggregate_returns_infinity:
  "evaluateFormula_step (argumentLimit 65536) noRounding numberToString [\<lparr>name = ''Product'', key = ''p''\<rparr>] []
       ''1/0'' = EvalExpression ''1/0''
   \<and> evaluateFormula_step (argumentLimit 65536) noRounding numberToString [\<lparr>name = ''Product'', key = ''p''\<rparr>]
       [[\<lparr>cell_value = Num Infinity, cell_format = None, cell_formula = Some ''=1/0''\<rparr>],
        [\<lparr>cell_value = Num NegInfinity, cell_format = None, cell_formula = Some ''=-1/0''\<rparr>]]
       ''MAX(A2)'' = Return (Num Infinity)
   \<and> evaluateFormula_step (argumentLimit 65536) noRounding numberToString [\<lparr>name = ''Product'', key = ''p''\<rparr>]
       [[\<lparr>cell_value = Num Infinity, cell_format = None, cell_formula = Some ''=1/0''\<rparr>],
        [\<lparr>cell_value = Num NegInfinity, cell_format = None, cell_formula = Some ''=-1/0''\<rparr>]]
       ''MIN(A3)'' = Return (Num NegInfinity)
   \<and> numericValues (expandedValues [\<lparr>name = ''Product'', key = ''p''\<rparr>]
       [[\<lparr>cell_value = Num Infinity, cell_format = None, cell_formula = Some ''=1/0''\<rparr>],
        [\<lparr>cell_value = Num NegInfinity, cell_format = None, cell_formula = Some ''=-1/0''\<rparr>]]
       ''MAX(A3)'' 4) = [NegInfinity]
   \<and> evaluateFormula_step (argumentLimit 65536) noRounding numberToString [\<lparr>name = ''Product'', key = ''p''\<rparr>]
       [[\<lparr>cell_value = Num Infinity, cell_format = None, cell_formula = Some ''=1/0''\<rparr>],
        [\<lparr>cell_value = Num NegInfinity, cell_format = None, cell_formula = Some ''=-1/0''\<rparr>]]
       ''MAX(A3)'' = Return (Num (Finite 0))"
  by code_simp

section \<open>Properties of the sort comparator\<close>

lemma str_less_lex: "str_less a b \<longleftrightarrow> map charCode a < map charCode b"
  by (induction a b rule: str_less.induct) auto

lemma str_less_asym: "str_less a b \<Longrightarrow> \<not> str_less b a"
  by (simp add: str_less_lex)

lemma str_less_cotrans: "str_less a c \<Longrightarrow> str_less a b \<or> str_less b c"
  by (auto simp: str_less_lex)

lemma compareValues_Desc:
  "compareValues rnd toStr Desc x y = compareValues rnd toStr Asc y x"
  by (cases x; cases y) (simp_all add: compareValues_def Let_def)

lemma compareValues_Num: "compareValues rnd toStr Asc (Num a) (Num b) = js_sub rnd a b"
  by (simp add: compareValues_def)

lemma compareValues_string:
  assumes "\<not> (\<exists>a b. x = Num a \<and> y = Num b)"
  shows "compareValues rnd toStr Asc x y =
     (if str_less (toLowerCase (String_of toStr x)) (toLowerCase (String_of toStr y))
      then Finite (-1)
      else if str_less (toLowerCase (String_of toStr y)) (toLowerCase (String_of toStr x))
      then Finite 1
      else Finite 0)"
  using assms by (cases x; cases y) (simp_all add: compareValues_def Let_def)

lemma differenceSigned_sym: "differenceSigned rnd x y \<longleftrightarrow> differenceSigned rnd y x"
  by (cases x; cases y) (auto simp: differenceSigned_def split: jsnum.splits)

lemma js_sub_sign:
  assumes "a \<noteq> NaN" and "b \<noteq> NaN" and "differenceSigned rnd (Num a) (Num b)"
  shows "(js_negative (js_sub rnd a b) \<longleftrightarrow> js_lt a b)
       \<and> (js_positive (js_sub rnd a b) \<longleftrightarrow> js_lt b a)"
  using assms
  by (cases a; cases b)
     (auto simp: js_sub_def js_neg_def js_lt_def js_negative_def js_positive_def
        differenceSigned_def signExact_def)

lemma js_lt_le: "a \<noteq> NaN \<Longrightarrow> b \<noteq> NaN \<Longrightarrow> \<not> js_lt b a \<longleftrightarrow> js_le a b"
  using js_le_total [of a b] by (auto simp: js_lt_def)

lemma not_positive_string:
  assumes "\<not> (\<exists>a b. x = Num a \<and> y = Num b)"
  shows "\<not> js_positive (compareValues rnd toStr Asc x y)
     \<longleftrightarrow> \<not> str_less (toLowerCase (String_of toStr y)) (toLowerCase (String_of toStr x))"
  using str_less_asym by (auto simp: compareValues_string [OF assms] js_positive_def)

lemma compareValues_total:
  assumes "differenceSigned rnd u v"
  shows "\<not> js_positive (compareValues rnd toStr Asc u v)
       \<or> \<not> js_positive (compareValues rnd toStr Asc v u)"
proof (cases "\<exists>a b. u = Num a \<and> v = Num b")
  case True
  then obtain a b where uv: "u = Num a" "v = Num b" by blast
  show ?thesis
  proof (cases "a = NaN \<or> b = NaN")
    case True
    then show ?thesis
      by (cases a; cases b) (auto simp: uv compareValues_Num js_sub_def js_neg_def js_positive_def)
  next
    case False
    then have n: "a \<noteq> NaN" "b \<noteq> NaN" by simp_all
    from assms have d: "differenceSigned rnd (Num a) (Num b)"
        "differenceSigned rnd (Num b) (Num a)"
      using differenceSigned_sym by (simp_all add: uv)
    show ?thesis
      using js_sub_sign [OF n d(1)] js_sub_sign [OF n(2,1) d(2)]
      by (auto simp: uv compareValues_Num js_lt_def)
  qed
next
  case False
  then have "\<not> (\<exists>a b. v = Num a \<and> u = Num b)" by auto
  with False show ?thesis
    using str_less_asym by (auto simp: not_positive_string)
qed

lemma compareValues_antisym_Asc:
  assumes "differenceSigned rnd u v"
  shows "js_negative (compareValues rnd toStr Asc u v)
       \<longleftrightarrow> js_positive (compareValues rnd toStr Asc v u)"
proof (cases "\<exists>a b. u = Num a \<and> v = Num b")
  case True
  then obtain a b where uv: "u = Num a" "v = Num b" by blast
  show ?thesis
  proof (cases "a = NaN \<or> b = NaN")
    case True
    then show ?thesis
      by (cases a; cases b)
         (auto simp: uv compareValues_Num js_sub_def js_neg_def js_positive_def js_negative_def)
  next
    case False
    then have n: "a \<noteq> NaN" "b \<noteq> NaN" by simp_all
    from assms have d: "differenceSigned rnd (Num a) (Num b)"
        "differenceSigned rnd (Num b) (Num a)"
      using differenceSigned_sym by (simp_all add: uv)
    show ?thesis
      using js_sub_sign [OF n d(1)] js_sub_sign [OF n(2,1) d(2)]
      by (simp add: uv compareValues_Num)
  qed
next
  case False
  then have "\<not> (\<exists>a b. v = Num a \<and> u = Num b)" by auto
  with False show ?thesis
    using str_less_asym
    by (auto simp: compareValues_string js_positive_def js_negative_def)
qed

lemma compareValues_trans:
  assumes "(\<exists>a b c. u = Num a \<and> v = Num b \<and> w = Num c \<and> a \<noteq> NaN \<and> b \<noteq> NaN \<and> c \<noteq> NaN)
         \<or> (\<exists>a b c. u = Str a \<and> v = Str b \<and> w = Str c)"
    and "differenceSigned rnd u v" and "differenceSigned rnd v w" and "differenceSigned rnd u w"
    and "\<not> js_positive (compareValues rnd toStr Asc u v)"
    and "\<not> js_positive (compareValues rnd toStr Asc v w)"
  shows "\<not> js_positive (compareValues rnd toStr Asc u w)"
proof -
  from assms(1) consider
      (nums) a b c where "u = Num a" "v = Num b" "w = Num c" "a \<noteq> NaN" "b \<noteq> NaN" "c \<noteq> NaN"
    | (strs) a b c where "u = Str a" "v = Str b" "w = Str c"
    by auto
  then show ?thesis
  proof cases
    case nums
    have "js_le a b"
      using assms(2,5) js_sub_sign [of a b rnd] js_lt_le [of a b] nums
      by (simp add: compareValues_Num)
    moreover have "js_le b c"
      using assms(3,6) js_sub_sign [of b c rnd] js_lt_le [of b c] nums
      by (simp add: compareValues_Num)
    ultimately have "js_le a c" by (rule js_le_trans)
    then show ?thesis
      using assms(4) js_sub_sign [of a c rnd] js_lt_le [of a c] nums
      by (simp add: compareValues_Num)
  next
    case strs
    with assms(5,6) show ?thesis
      using str_less_cotrans by (auto simp: not_positive_string)
  qed
qed

text \<open>
  Claim C5, as the code has it. The comparator of the column sort compares two numbers by
  their difference, whose sign is that of their order when neither is \<^verbatim>\<open>NaN\<close> (the
  difference of two finite numbers rounding to a number of its sign, as the arithmetic of
  doubles does); every other pair, numeric strings included, is compared as lower-cased
  strings, code unit by code unit; descending is ascending with the operands swapped. In
  both directions any two values are comparable, swapping the operands swaps the sign, and
  the comparison is transitive on values that are all strings or all numbers other than
  \<^verbatim>\<open>NaN\<close>.
\<close>

theorem sort_comparator_by_type:
  "compareValues rnd toStr Asc (Num a) (Num b) = js_sub rnd a b
   \<and> compareValues rnd toStr Desc (Num a) (Num b) = js_sub rnd b a
   \<and> (a \<noteq> NaN \<and> b \<noteq> NaN \<and> differenceSigned rnd (Num a) (Num b) \<longrightarrow>
        (js_negative (compareValues rnd toStr Asc (Num a) (Num b)) \<longleftrightarrow> js_lt a b)
        \<and> (js_positive (compareValues rnd toStr Asc (Num a) (Num b)) \<longleftrightarrow> js_lt b a))
   \<and> (\<not> (\<exists>a b. x = Num a \<and> y = Num b) \<longrightarrow>
        compareValues rnd toStr Asc x y =
          (if str_less (toLowerCase (String_of toStr x)) (toLowerCase (String_of toStr y))
           then Finite (-1)
           else if str_less (toLowerCase (String_of toStr y)) (toLowerCase (String_of toStr x))
           then Finite 1
           else Finite 0))
   \<and> compareValues rnd toStr Desc x y = compareValues rnd toStr Asc y x
   \<and> (differenceSigned rnd x y \<longrightarrow>
        \<not> js_positive (compareValues rnd toStr d x y)
        \<or> \<not> js_positive (compareValues rnd toStr d y x))
   \<and> (differenceSigned rnd x y \<longrightarrow>
        (js_negative (compareValues rnd toStr d x y)
           \<longleftrightarrow> js_positive (compareValues rnd toStr d y x)))
   \<and> (((\<exists>a b c. x = Num a \<and> y = Num b \<and> z = Num c \<and> a \<noteq> NaN \<and> b \<noteq> NaN \<and> c \<noteq> NaN)
          \<or> (\<exists>a b c. x = Str a \<and> y = Str b \<and> z = Str c))
        \<and> differenceSigned rnd x y \<and> differenceSigned rnd y z \<and> differenceSigned rnd x z
        \<and> \<not> js_positive (compareValues rnd toStr d x y)
        \<and> \<not> js_positive (compareValues rnd toStr d y z)
        \<longrightarrow> \<not> js_positive (compareValues rnd toStr d x z))"
proof (intro conjI impI)
  show "compareValues rnd toStr Asc (Num a) (Num b) = js_sub rnd a b"
    by (rule compareValues_Num)
  show "compareValues rnd toStr Desc (Num a) (Num b) = js_sub rnd b a"
    by (simp add: compareValues_Desc compareValues_Num)
  show "compareValues rnd toStr Desc x y = compareValues rnd toStr Asc y x"
    by (rule compareValues_Desc)
  {
    assume h: "a \<noteq> NaN \<and> b \<noteq> NaN \<and> differenceSigned rnd (Num a) (Num b)"
    then show "js_negative (compareValues rnd toStr Asc (Num a) (Num b)) \<longleftrightarrow> js_lt a b"
      using js_sub_sign [of a b rnd] by (simp add: compareValues_Num)
    from h show "js_positive (compareValues rnd toStr Asc (Num a) (Num b)) \<longleftrightarrow> js_lt b a"
      using js_sub_sign [of a b rnd] by (simp add: compareValues_Num)
  }
  {
    assume "\<not> (\<exists>a b. x = Num a \<and> y = Num b)"
    then show "compareValues rnd toStr Asc x y =
          (if str_less (toLowerCase (String_of toStr x)) (toLowerCase (String_of toStr y))
           then Finite (-1)
           else if str_less (toLowerCase (String_of toStr y)) (toLowerCase (String_of toStr x))
           then Finite 1
           else Finite 0)"
      by (rule compareValues_string)
  }
  {
    assume ds: "differenceSigned rnd x y"
    then have ds': "differenceSigned rnd y x"
      using differenceSigned_sym by blast
    show "\<not> js_positive (compareValues rnd toStr d x y)
        \<or> \<not> js_positive (compareValues rnd toStr d y x)"
      using compareValues_total [OF ds, of toStr] compareValues_total [OF ds', of toStr]
      by (cases d) (auto simp: compareValues_Desc)
    show "js_negative (compareValues rnd toStr d x y)
        \<longleftrightarrow> js_positive (compareValues rnd toStr d y x)"
      using compareValues_antisym_Asc [OF ds, of toStr]
        compareValues_antisym_Asc [OF ds', of toStr]
      by (cases d) (simp_all add: compareValues_Desc)
  }
  {
    assume h: "((\<exists>a b c. x = Num a \<and> y = Num b \<and> z = Num c \<and> a \<noteq> NaN \<and> b \<noteq> NaN \<and> c \<noteq> NaN)
          \<or> (\<exists>a b c. x = Str a \<and> y = Str b \<and> z = Str c))
        \<and> differenceSigned rnd x y \<and> differenceSigned rnd y z \<and> differenceSigned rnd x z
        \<and> \<not> js_positive (compareValues rnd toStr d x y)
        \<and> \<not> js_positive (compareValues rnd toStr d y z)"
    then have kinds: "(\<exists>a b c. x = Num a \<and> y = Num b \<and> z = Num c \<and> a \<noteq> NaN \<and> b \<noteq> NaN \<and> c \<noteq> NaN)
          \<or> (\<exists>a b c. x = Str a \<and> y = Str b \<and> z = Str c)"
      and ds: "differenceSigned rnd x y" "differenceSigned rnd y z" "differenceSigned rnd x z"
      and le: "\<not> js_positive (compareValues rnd toStr d x y)"
        "\<not> js_positive (compareValues rnd toStr d y z)"
      by blast+
    show "\<not> js_positive (compareValues rnd toStr d x z)"
    proof (cases d)
      case Asc
      with le show ?thesis
        using compareValues_trans [OF kinds ds, of toStr] by simp
    next
      case Desc
      have kinds': "(\<exists>a b c. z = Num a \<and> y = Num b \<and> x = Num c \<and> a \<noteq> NaN \<and> b \<noteq> NaN \<and> c \<noteq> NaN)
          \<or> (\<exists>a b c. z = Str a \<and> y = Str b \<and> x = Str c)"
        using kinds by auto
      have ds': "differenceSigned rnd z y" "differenceSigned rnd y x" "differenceSigned rnd z x"
        using ds differenceSigned_sym by blast+
      from Desc le show ?thesis
        using compareValues_trans [OF kinds' ds', of toStr] by (simp add: compareValues_Desc)
    qed
  }
qed


theorem sort_comparator_by_type_witness:
  "\<not> (\<exists>a b. Str ''b'' = Num a \<and> Str ''A'' = Num b)
   \<and> compareValues noRounding numberToString Asc (Str ''b'') (Str ''A'') = Finite 1
   \<and> compareValues noRounding numberToString Desc (Str ''b'') (Str ''A'') = Finite (-1)
   \<and> differenceSigned noRounding (Num (Finite 2)) (Num (Finite 10))
   \<and> js_lt (Finite 2) (Finite 10)
   \<and> compareValues noRounding numberToString Asc (Num (Finite 2)) (Num (Finite 10)) = Finite (-8)
   \<and> js_negative (compareValues noRounding numberToString Asc (Num (Finite 2)) (Num (Finite 10)))
   \<and> js_positive (compareValues noRounding numberToString Asc (Num (Finite 10)) (Num (Finite 2)))
   \<and> ((\<exists>a b c. Str ''A'' = Str a \<and> Str ''b'' = Str b \<and> Str ''C'' = Str c)
        \<and> differenceSigned noRounding (Str ''A'') (Str ''b'')
        \<and> differenceSigned noRounding (Str ''b'') (Str ''C'')
        \<and> differenceSigned noRounding (Str ''A'') (Str ''C'')
        \<and> \<not> js_positive (compareValues noRounding numberToString Asc (Str ''A'') (Str ''b''))
        \<and> \<not> js_positive (compareValues noRounding numberToString Asc (Str ''b'') (Str ''C''))
        \<and> \<not> js_positive (compareValues noRounding numberToString Asc (Str ''A'') (Str ''C'')))"
proof -
  have cmps:
    "compareValues noRounding numberToString Asc (Str ''b'') (Str ''A'') = Finite 1"
    "compareValues noRounding numberToString Asc (Str ''A'') (Str ''b'') = Finite (-1)"
    "\<not> js_positive (compareValues noRounding numberToString Asc (Str ''A'') (Str ''b''))"
    "\<not> js_positive (compareValues noRounding numberToString Asc (Str ''b'') (Str ''C''))"
    by code_simp+
  have signed:
    "differenceSigned noRounding (Num (Finite 2)) (Num (Finite 10))"
    "differenceSigned noRounding (Num (Finite 10)) (Num (Finite 2))"
    "differenceSigned noRounding (Str ''A'') (Str ''b'')"
    "differenceSigned noRounding (Str ''b'') (Str ''C'')"
    "differenceSigned noRounding (Str ''A'') (Str ''C'')"
    by code_simp+
  have less: "js_lt (Finite 2) (Finite 10)"
    by code_simp
  have difference: "js_sub noRounding (Finite 2) (Finite 10) = Finite (-8)"
    by (simp add: js_sub_def js_neg_def noRounding_def)
  note at_bA = sort_comparator_by_type
      [of noRounding numberToString "Finite 2" "Finite 10" "Str ''b''" "Str ''A''" Asc "Str ''C''"]
  note at_AbC = sort_comparator_by_type
      [of noRounding numberToString "Finite 2" "Finite 10" "Str ''A''" "Str ''b''" Asc "Str ''C''"]
  note at_nums = sort_comparator_by_type
      [of noRounding numberToString "Finite 2" "Finite 10"
          "Num (Finite 2)" "Num (Finite 10)" Asc "Num (Finite 2)"]
  from at_bA have desc: "compareValues noRounding numberToString Desc (Str ''b'') (Str ''A'')
      = compareValues noRounding numberToString Asc (Str ''A'') (Str ''b'')"
    by blast
  from at_bA have nums: "compareValues noRounding numberToString Asc (Num (Finite 2)) (Num (Finite 10))
      = js_sub noRounding (Finite 2) (Finite 10)"
    by blast
  have numbers: "Finite 2 \<noteq> NaN" "Finite 10 \<noteq> NaN"
    by simp_all
  from at_bA signed(1) less numbers
  have negative: "js_negative (compareValues noRounding numberToString Asc
      (Num (Finite 2)) (Num (Finite 10)))"
    by blast
  from at_nums signed(1) negative
  have positive: "js_positive (compareValues noRounding numberToString Asc
      (Num (Finite 10)) (Num (Finite 2)))"
    by blast
  have same: "\<exists>a b c. Str ''A'' = Str a \<and> Str ''b'' = Str b \<and> Str ''C'' = Str c"
    by blast
  from at_AbC same signed(3,4,5) cmps(3,4)
  have trans: "\<not> js_positive (compareValues noRounding numberToString Asc (Str ''A'') (Str ''C''))"
    by blast
  have strings: "\<not> (\<exists>a b. Str ''b'' = Num a \<and> Str ''A'' = Num b)"
    by simp
  show ?thesis
    using strings cmps desc nums difference signed less negative positive same trans by simp
qed

text \<open>
  Lower-casing is that of the language, not only of the letters A-Z: the capital E with
  acute and the small one are equal, and the capital A with grave comes after the
  multiplication sign.
\<close>

lemma accented_letters_are_lower_cased:
  "compareValues noRounding numberToString Asc
       (Str [char_of (201::nat)]) (Str [char_of (233::nat)]) = Finite 0
   \<and> compareValues noRounding numberToString Asc
       (Str [char_of (192::nat)]) (Str [char_of (215::nat)]) = Finite 1"
  by code_simp

text \<open>
  A number that is \<^verbatim>\<open>NaN\<close> compares as equal to every number, so a column that holds one is
  not ordered: 7 is not after \<^verbatim>\<open>NaN\<close>, \<^verbatim>\<open>NaN\<close> is not after 5, and 7 is after 5. Infinite
  numbers are ordered: the difference of an infinity and itself is \<^verbatim>\<open>NaN\<close>, which counts
  as 0.
\<close>

lemma not_a_number_is_not_ordered:
  "\<not> js_positive (compareValues noRounding numberToString Asc (Num (Finite 7)) (Num NaN))
   \<and> \<not> js_positive (compareValues noRounding numberToString Asc (Num NaN) (Num (Finite 5)))
   \<and> js_positive (compareValues noRounding numberToString Asc (Num (Finite 7)) (Num (Finite 5)))
   \<and> compareValues noRounding numberToString Asc (Num Infinity) (Num Infinity) = NaN"
  by code_simp

text \<open>
  Claim C5 as stated fails twice. The strings \<^verbatim>\<open>"10"\<close> and \<^verbatim>\<open>"9"\<close> both parse as numbers,
  9 below 10, and the ascending comparator puts \<^verbatim>\<open>"10"\<close> first. And on a column that mixes
  numbers and strings the comparator is no order: 2 before 10 before \<^verbatim>\<open>"15"\<close> before 2.
\<close>

theorem numeric_strings_sorted_as_text:
  "parseInt ''9'' < parseInt ''10''
   \<and> js_negative (compareValues noRounding numberToString Asc (Str ''10'') (Str ''9''))
   \<and> js_negative (compareValues noRounding numberToString Asc (Num (Finite 2)) (Num (Finite 10)))
   \<and> js_negative (compareValues noRounding numberToString Asc (Num (Finite 10)) (Str ''15''))
   \<and> js_negative (compareValues noRounding numberToString Asc (Str ''15'') (Num (Finite 2)))"
  by code_simp

section \<open>Properties of the selection model\<close>

text \<open>
  Claim C9, as the code has it. A click with Ctrl or Cmd held replaces the selected-cells
  set by its symmetric difference with the key of the clicked position, makes that position
  the selected cell, and sets \<^verbatim>\<open>selectedRange\<close> to null.
\<close>

theorem ctrl_click_toggles:
  "ctrlKey e \<or> metaKey e \<Longrightarrow>
     selectedCells (handleCellClick sel r c e)
       = (selectedCells sel - {cellKey r c}) \<union> ({cellKey r c} - selectedCells sel)
     \<and> selectedRange (handleCellClick sel r c e) = None
     \<and> selectedCell (handleCellClick sel r c e) = Some \<lparr>row = r, col = c\<rparr>"
  by (auto simp: handleCellClick_def Let_def)

theorem ctrl_click_toggles_witness:
  "(ctrlKey \<lparr>ctrlKey = True, metaKey = False, shiftKey = False\<rparr>
      \<or> metaKey \<lparr>ctrlKey = True, metaKey = False, shiftKey = False\<rparr>)
   \<and> selectedCells (handleCellClick
        \<lparr>selectedCell = Some \<lparr>row = 0, col = 0\<rparr>, selectedRange = None,
         selectedCells = {''0,0'', ''1,1''}, editingCell = None\<rparr>
        1 1 \<lparr>ctrlKey = True, metaKey = False, shiftKey = False\<rparr>) = {''0,0''}"
proof -
  have key: "cellKey 1 1 = ''1,1''"
    by code_simp
  show ?thesis
    using ctrl_click_toggles [of "\<lparr>ctrlKey = True, metaKey = False, shiftKey = False\<rparr>"
        "\<lparr>selectedCell = Some \<lparr>row = 0, col = 0\<rparr>, selectedRange = None,
         selectedCells = {''0,0'', ''1,1''}, editingCell = None\<rparr>" 1 1]
    by (auto simp: key)
qed

text \<open>
  Claim C9 as stated, that the toggle does not alter \<^verbatim>\<open>selectedRange\<close>, fails on a
  selection that holds a range: after a shift-click has selected the cells from (0, 0) to
  (1, 1), a Ctrl-click on (2, 2) leaves \<^verbatim>\<open>selectedRange\<close> null.
\<close>

theorem ctrl_click_clears_range:
  "selectedRange (handleCellClick
        \<lparr>selectedCell = Some \<lparr>row = 1, col = 1\<rparr>,
         selectedRange = Some \<lparr>range_start = \<lparr>row = 0, col = 0\<rparr>,
                                range_end = \<lparr>row = 1, col = 1\<rparr>\<rparr>,
         selectedCells = {''0,0'', ''0,1'', ''1,0'', ''1,1''}, editingCell = None\<rparr>
        2 2 \<lparr>ctrlKey = True, metaKey = False, shiftKey = False\<rparr>) = None
   \<and> selectedRange
        \<lparr>selectedCell = Some \<lparr>row = 1, col = 1\<rparr>,
         selectedRange = Some \<lparr>range_start = \<lparr>row = 0, col = 0\<rparr>,
                                range_end = \<lparr>row = 1, col = 1\<rparr>\<rparr>,
         selectedCells = {''0,0'', ''0,1'', ''1,0'', ''1,1''}, editingCell = None\<rparr>
     = Some \<lparr>range_start = \<lparr>row = 0, col = 0\<rparr>, range_end = \<lparr>row = 1, col = 1\<rparr>\<rparr>"
  by (simp add: handleCellClick_def Let_def)

section \<open>Properties of the grid state and its history\<close>

subsection \<open>Row arrays stay distinct\<close>

lemma distinct_initialState: "distinct (gridData (initialState cols items))"
  by (simp add: initialState_def allocRows_def)

lemma set_insort_cmp: "set (insort_cmp cmp x xs) = insert x (set xs)"
  by (induction xs) auto

lemma distinct_insort_cmp: "distinct xs \<Longrightarrow> x \<notin> set xs \<Longrightarrow> distinct (insort_cmp cmp x xs)"
  by (induction xs) (auto simp: set_insort_cmp)

lemma js_sort_set_distinct:
  "set (js_sort cmp xs) = set xs \<and> (distinct xs \<longrightarrow> distinct (js_sort cmp xs))"
  unfolding js_sort_def
  by (induction xs) (auto simp: set_insort_cmp distinct_insort_cmp)

lemma distinct_handleSort:
  "distinct (gridData st) \<Longrightarrow> handleSort rnd toStr st colIndex = Some st' \<Longrightarrow>
     distinct (gridData st')"
  by (auto simp: handleSort_def Let_def js_sort_set_distinct split: if_splits prod.splits)

lemma distinct_clearCell:
  "distinct (gridData st) \<Longrightarrow> clearCell st r c = Some st' \<Longrightarrow> distinct (gridData st')"
  by (auto simp: clearCell_def Let_def split: if_splits prod.splits)

lemma distinct_undo:
  "distinct (gridData st) \<Longrightarrow> undo st = Some st' \<Longrightarrow> distinct (gridData st')"
  by (auto simp: undo_def Let_def allocRows_def split: if_splits)

lemma distinct_redo:
  "distinct (gridData st) \<Longrightarrow> redo st = Some st' \<Longrightarrow> distinct (gridData st')"
  by (auto simp: redo_def Let_def allocRows_def split: if_splits)

subsection \<open>Clearing a cell\<close>

lemma map_fun_upd_distinct:
  assumes "distinct xs" and "i < length xs"
  shows "map (f(xs ! i := v)) xs = (map f xs)[i := v]"
proof (rule nth_equalityI)
  show "length (map (f(xs ! i := v)) xs) = length ((map f xs)[i := v])" by simp
next
  fix j assume "j < length (map (f(xs ! i := v)) xs)"
  then have j: "j < length xs" by simp
  show "map (f(xs ! i := v)) xs ! j = (map f xs)[i := v] ! j"
  proof (cases "j = i")
    case True
    with j show ?thesis by simp
  next
    case False
    with assms j have "xs ! j \<noteq> xs ! i" by (simp add: nth_eq_iff_index_eq)
    with False j show ?thesis by simp
  qed
qed

text \<open>
  Claim C10. In a state whose rows are distinct arrays, as they are in every state the
  handlers produce, \<^verbatim>\<open>clearCell\<close> on a cell inside the grid, and so Delete or Backspace on a
  selected cell that is not in the header row, succeeds and gives the grid in which that
  cell has the empty string as value, no formula and the format it had, and every other
  cell is as before.
\<close>

theorem clearCell_frame:
  assumes "distinct (gridData st)"
    and "0 \<le> r" and "r < int (length (grid_of st))"
    and "0 \<le> c" and "c < int (length (grid_of st ! nat r))"
  shows "\<exists>st'. clearCell st r c = Some st'
      \<and> handleKeyDown_Delete st (Some \<lparr>row = r, col = c\<rparr>) = Some st'
      \<and> grid_of st' = (grid_of st)[nat r := (grid_of st ! nat r)[nat c :=
            \<lparr>cell_value = Str [],
             cell_format = cell_format (grid_of st ! nat r ! nat c),
             cell_formula = None\<rparr>]]"
proof -
  let ?a = "gridData st ! nat r"
  let ?new = "\<lparr>cell_value = Str [], cell_format = cell_format (heap st ?a ! nat c),
               cell_formula = None\<rparr>"
  let ?h = "(heap st)(?a := (heap st ?a)[nat c := ?new])"
  have len: "nat r < length (gridData st)"
    using assms(2,3) by (simp add: grid_of_def deepCopy_def)
  have row: "grid_of st ! nat r = heap st ?a"
    using len by (simp add: grid_of_def deepCopy_def)
  have inb: "0 \<le> r \<and> r < int (length (gridData st)) \<and> 0 \<le> c
      \<and> c < int (length (heap st ?a))"
    using assms(2-5) by (simp add: grid_of_def deepCopy_def)
  obtain newHistory newIndex where sv: "saveToHistory ?h st = (newHistory, newIndex)"
    by (cases "saveToHistory ?h st")
  let ?st' = "st\<lparr>heap := ?h, history := newHistory, historyIndex := newIndex\<rparr>"
  have cc: "clearCell st r c = Some ?st'"
    using inb by (simp add: clearCell_def Let_def sv)
  have "grid_of ?st' = map ?h (gridData st)"
    by (simp add: grid_of_def deepCopy_def)
  also have "\<dots> = (map (heap st) (gridData st))[nat r := (heap st ?a)[nat c := ?new]]"
    by (rule map_fun_upd_distinct [OF assms(1) len])
  finally have g: "grid_of ?st' = (grid_of st)[nat r := (grid_of st ! nat r)[nat c :=
            \<lparr>cell_value = Str [],
             cell_format = cell_format (grid_of st ! nat r ! nat c),
             cell_formula = None\<rparr>]]"
    by (simp add: row) (simp add: grid_of_def deepCopy_def)
  have del: "handleKeyDown_Delete st (Some \<lparr>row = r, col = c\<rparr>) = clearCell st r c"
    using assms(2) by (simp add: handleKeyDown_Delete_def)
  show ?thesis
    using cc g del by simp
qed

theorem clearCell_frame_witness:
  "distinct (gridData (initialState [\<lparr>name = ''Product'', key = ''p''\<rparr>]
       [[''p'' \<mapsto> Str ''B''], [''p'' \<mapsto> Str ''A'']]))
   \<and> (0::int) \<le> 1
   \<and> 1 < int (length (grid_of (initialState [\<lparr>name = ''Product'', key = ''p''\<rparr>]
       [[''p'' \<mapsto> Str ''B''], [''p'' \<mapsto> Str ''A'']])))
   \<and> (0::int) \<le> 0
   \<and> 0 < int (length (grid_of (initialState [\<lparr>name = ''Product'', key = ''p''\<rparr>]
       [[''p'' \<mapsto> Str ''B''], [''p'' \<mapsto> Str ''A'']]) ! nat 1))
   \<and> map_option grid_of (clearCell (initialState [\<lparr>name = ''Product'', key = ''p''\<rparr>]
       [[''p'' \<mapsto> Str ''B''], [''p'' \<mapsto> Str ''A'']]) 1 0)
     = Some (initialGrid [\<lparr>name = ''Product'', key = ''p''\<rparr>]
       [[''p'' \<mapsto> Str ''B''], [''p'' \<mapsto> Str []]])"
proof -
  let ?st = "initialState [\<lparr>name = ''Product'', key = ''p''\<rparr>]
       [[''p'' \<mapsto> Str ''B''], [''p'' \<mapsto> Str ''A'']]"
  have d: "distinct (gridData ?st)"
    by (rule distinct_initialState)
  have r: "1 < int (length (grid_of ?st))"
    by code_simp
  have c: "0 < int (length (grid_of ?st ! nat 1))"
    by code_simp
  have g: "(grid_of ?st)[nat 1 := (grid_of ?st ! nat 1)[nat 0 :=
            \<lparr>cell_value = Str [],
             cell_format = cell_format (grid_of ?st ! nat 1 ! nat 0),
             cell_formula = None\<rparr>]]
      = initialGrid [\<lparr>name = ''Product'', key = ''p''\<rparr>]
          [[''p'' \<mapsto> Str ''B''], [''p'' \<mapsto> Str []]]"
    by code_simp
  from clearCell_frame [OF d _ r _ c] obtain st' where
    cc: "clearCell ?st 1 0 = Some st'"
    and gs: "grid_of st' = (grid_of ?st)[nat 1 := (grid_of ?st ! nat 1)[nat 0 :=
            \<lparr>cell_value = Str [],
             cell_format = cell_format (grid_of ?st ! nat 1 ! nat 0),
             cell_formula = None\<rparr>]]"
    by auto
  have "grid_of st' = initialGrid [\<lparr>name = ''Product'', key = ''p''\<rparr>]
          [[''p'' \<mapsto> Str ''B''], [''p'' \<mapsto> Str []]]"
    by (rule trans [OF gs g])
  then have "map_option grid_of (clearCell ?st 1 0)
      = Some (initialGrid [\<lparr>name = ''Product'', key = ''p''\<rparr>]
          [[''p'' \<mapsto> Str ''B''], [''p'' \<mapsto> Str []]])"
    by (simp add: cc)
  with d r c show ?thesis
    by simp
qed

subsection \<open>Snapshots\<close>

lemma deepCopy_allocRows:
  "allocRows h n rows = (h', addrs, n') \<Longrightarrow> deepCopy h' addrs = rows"
  by (auto simp: allocRows_def deepCopy_def intro!: nth_equalityI)

lemma newestSnapshot_saveToHistory:
  "saveToHistory h st = (newHistory, newIndex) \<Longrightarrow>
     snapshot_gridData (newHistory ! nat newIndex) = deepCopy h (gridData st)"
  by (auto simp: saveToHistory_def Let_def nth_append)

text \<open>
  \<^verbatim>\<open>clearCell\<close> writes into a row array that the \<^verbatim>\<open>gridData\<close> of its render holds, so the
  snapshot it records is the grid after the write.
\<close>

lemma clearCell_snapshot_in_sync:
  assumes "clearCell st r c = Some st'"
  shows "newestSnapshot st' = grid_of st'"
proof -
  from assms obtain h newHistory newIndex where
    sv: "saveToHistory h st = (newHistory, newIndex)"
    and st': "st' = st\<lparr>heap := h, history := newHistory, historyIndex := newIndex\<rparr>"
    by (auto simp: clearCell_def Let_def split: if_splits prod.splits)
  show ?thesis
    using newestSnapshot_saveToHistory [OF sv]
    by (simp add: st' newestSnapshot_def grid_of_def)
qed

text \<open>
  \<^verbatim>\<open>handleSort\<close> sorts a copy of the outer array, so the \<^verbatim>\<open>gridData\<close> of its render is
  untouched, and the snapshot it records is the grid before the sort.
\<close>

lemma handleSort_records_previous_grid:
  assumes "handleSort rnd toStr st colIndex = Some st'"
  shows "newestSnapshot st' = grid_of st"
proof -
  from assms obtain newHistory newIndex where
    sv: "saveToHistory (heap st) st = (newHistory, newIndex)"
    and h: "history st' = newHistory" "historyIndex st' = newIndex"
    by (auto simp: handleSort_def Let_def split: if_splits prod.splits)
  show ?thesis
    using newestSnapshot_saveToHistory [OF sv]
    by (simp add: h newestSnapshot_def grid_of_def)
qed

text \<open>
  Undo followed by redo puts the entry under the cursor into the grid: the grid comes back
  when that entry is the grid itself, and not otherwise.
\<close>

lemma undo_redo_restores_snapshot:
  assumes "0 < historyIndex st" and "historyIndex st < int (length (history st))"
  shows "\<exists>st'. Option.bind (undo st) redo = Some st' \<and> grid_of st' = newestSnapshot st"
proof -
  obtain h1 rows1 n1 where a1: "allocRows (heap st) (heap_next st)
      (snapshot_gridData (history st ! nat (historyIndex st - 1))) = (h1, rows1, n1)"
    by (cases "allocRows (heap st) (heap_next st)
      (snapshot_gridData (history st ! nat (historyIndex st - 1)))") auto
  let ?s1 = "st\<lparr>heap := h1, heap_next := n1, gridData := rows1,
                historyIndex := historyIndex st - 1\<rparr>"
  have u: "undo st = Some ?s1"
    using assms(1,2) by (simp add: undo_def Let_def a1)
  obtain h2 rows2 n2 where a2: "allocRows h1 n1
      (snapshot_gridData (history st ! nat (historyIndex st))) = (h2, rows2, n2)"
    by (cases "allocRows h1 n1 (snapshot_gridData (history st ! nat (historyIndex st)))") auto
  let ?s2 = "?s1\<lparr>heap := h2, heap_next := n2, gridData := rows2,
                 historyIndex := historyIndex st\<rparr>"
  have r: "redo ?s1 = Some ?s2"
    using assms(1,2) by (simp add: redo_def Let_def a2)
  have "grid_of ?s2 = snapshot_gridData (history st ! nat (historyIndex st))"
    using deepCopy_allocRows [OF a2] by (simp add: grid_of_def)
  then have "grid_of ?s2 = newestSnapshot st"
    by (simp add: newestSnapshot_def)
  then show ?thesis
    using u r by simp
qed

lemma undo_redo_in_sync:
  assumes "0 < historyIndex st" and "historyIndex st < int (length (history st))"
    and "newestSnapshot st = grid_of st"
  shows "\<exists>st'. Option.bind (undo st) redo = Some st' \<and> grid_of st' = grid_of st"
  using undo_redo_restores_snapshot [OF assms(1,2)] assms(3) by simp

text \<open>
  Claim C4. After a committed mutation the newest history entry is to hold the grid that
  the mutation produced. \<^verbatim>\<open>handleSort\<close> breaks this: it calls \<^verbatim>\<open>setGridData(sorted)\<close> and
  then \<^verbatim>\<open>saveToHistory()\<close>, which copies the \<^verbatim>\<open>gridData\<close> of the render, the grid before
  the sort. On the rows B, A the grid after the sort is A, B and the newest entry is B, A.
\<close>

theorem sort_snapshot_is_stale:
  "map_option grid_of
     (handleSort noRounding numberToString
        (initialState [\<lparr>name = ''Product'', key = ''p''\<rparr>]
           [[''p'' \<mapsto> Str ''B''], [''p'' \<mapsto> Str ''A'']]) 0)
     = Some (initialGrid [\<lparr>name = ''Product'', key = ''p''\<rparr>]
           [[''p'' \<mapsto> Str ''A''], [''p'' \<mapsto> Str ''B'']])
   \<and> map_option newestSnapshot
     (handleSort noRounding numberToString
        (initialState [\<lparr>name = ''Product'', key = ''p''\<rparr>]
           [[''p'' \<mapsto> Str ''B''], [''p'' \<mapsto> Str ''A'']]) 0)
     = Some (initialGrid [\<lparr>name = ''Product'', key = ''p''\<rparr>]
           [[''p'' \<mapsto> Str ''B''], [''p'' \<mapsto> Str ''A'']])
   \<and> initialGrid [\<lparr>name = ''Product'', key = ''p''\<rparr>]
           [[''p'' \<mapsto> Str ''A''], [''p'' \<mapsto> Str ''B'']]
     \<noteq> initialGrid [\<lparr>name = ''Product'', key = ''p''\<rparr>]
           [[''p'' \<mapsto> Str ''B''], [''p'' \<mapsto> Str ''A'']]"
  by code_simp

text \<open>
  Claim C3. After two recorded mutations or more, undo followed by redo is to restore the
  grid as it was before the undo. After two sorts of the rows B, A (ascending, then
  descending) the grid is B, A; undo and then redo leave A, B, the stale entry that the
  second sort recorded.
\<close>

theorem undo_then_redo_after_sort:
  "map_option grid_of
     (Option.bind (handleSort noRounding numberToString
        (initialState [\<lparr>name = ''Product'', key = ''p''\<rparr>]
           [[''p'' \<mapsto> Str ''B''], [''p'' \<mapsto> Str ''A'']]) 0)
        (\<lambda>st. handleSort noRounding numberToString st 0))
     = Some (initialGrid [\<lparr>name = ''Product'', key = ''p''\<rparr>]
           [[''p'' \<mapsto> Str ''B''], [''p'' \<mapsto> Str ''A'']])
   \<and> map_option grid_of
     (Option.bind (Option.bind (Option.bind (handleSort noRounding numberToString
        (initialState [\<lparr>name = ''Product'', key = ''p''\<rparr>]
           [[''p'' \<mapsto> Str ''B''], [''p'' \<mapsto> Str ''A'']]) 0)
        (\<lambda>st. handleSort noRounding numberToString st 0)) undo) redo)
     = Some (initialGrid [\<lparr>name = ''Product'', key = ''p''\<rparr>]
           [[''p'' \<mapsto> Str ''A''], [''p'' \<mapsto> Str ''B'']])
   \<and> initialGrid [\<lparr>name = ''Product'', key = ''p''\<rparr>]
           [[''p'' \<mapsto> Str ''A''], [''p'' \<mapsto> Str ''B'']]
     \<noteq> initialGrid [\<lparr>name = ''Product'', key = ''p''\<rparr>]
           [[''p'' \<mapsto> Str ''B''], [''p'' \<mapsto> Str ''A'']]"
  by code_simp

end
